theory Spec2Isabelle
  imports Main "HOL-Library.Word"
begin

section \<open>Strings and bytes\<close>

text \<open>
  A JavaScript string is a sequence of UTF-16 code units; a Buffer is a sequence of
  bytes. String literals of the source are written \<open>js ''...''\<close>.
\<close>

type_synonym jsstring = "16 word list"
type_synonym byte = "8 word"

definition js :: "string \<Rightarrow> jsstring" where
  "js s = map of_char s"

definition startsWith :: "jsstring \<Rightarrow> jsstring \<Rightarrow> bool" where
  "startsWith s p = (take (length p) s = p)"

text \<open>\<^verbatim>\<open>s.replace(/\\/g, "/")\<close>: every backslash becomes a slash.\<close>

definition backslashToSlash :: "jsstring \<Rightarrow> jsstring" where
  "backslashToSlash s = map (\<lambda>c. if c = 0x5C then 0x2F else c) s"

section \<open>The syntax tree as the extractor observes it\<close>

datatype SyntaxKind =
    FunctionDeclaration | MethodDeclaration | FunctionExpression | ArrowFunction
  | Constructor | GetAccessor | SetAccessor
  | ClassDeclaration | InterfaceDeclaration | EnumDeclaration
  | VariableDeclaration | Parameter
  | CallExpression | ExportAssignment
  | DefaultKeyword | ExportKeyword | AsyncKeyword
  | OtherKind nat

text \<open>
  What the code reads from a node that stands for a declaration: its identity (the
  object compared by \<^verbatim>\<open>includes\<close>), its kind, the name of its symbol
  (\<^verbatim>\<open>node.getSymbol?.()?.getName()\<close>), \<^verbatim>\<open>getName()\<close> of a function, class, interface or
  enum declaration, the text of its name node, its modifiers and the path of its file.
\<close>

record Declaration =
  nodeId :: nat
  getKind :: SyntaxKind
  getKindName :: jsstring
  symbolName :: "jsstring option"
  getName :: "jsstring option"
  nameNodeText :: "jsstring option"
  modifiers :: "SyntaxKind list"
  declFilePath :: jsstring

record TsSymbol =
  symbolGetName :: jsstring
  fullyQualifiedName :: jsstring
  getDeclarations :: "Declaration list"

text \<open>
  The remaining attributes of a node: \<^verbatim>\<open>isAsync?.()\<close>, the line and column of
  \<^verbatim>\<open>getNonWhitespaceStart()\<close> and of \<^verbatim>\<open>getEnd()\<close>, the string \<^verbatim>\<open>astPath\<close> builds from
  the parent chain (kept as given: no property below depends on it), and, read only at a
  call expression, the text of \<^verbatim>\<open>getExpression()\<close> and the symbol
  \<^verbatim>\<open>expression.getSymbol() ?? checker.getSymbolAtLocation(...)\<close>.
\<close>

record NodeInfo =
  decl :: Declaration
  isAsync :: bool
  startLineAndColumn :: "nat \<times> nat"
  endLineAndColumn :: "nat \<times> nat"
  astPathText :: jsstring
  expressionText :: jsstring
  expressionSymbol :: "TsSymbol option"

datatype Node = Node (info: NodeInfo) (forEachChild: "Node list")

fun preorder :: "Node \<Rightarrow> Node list" where
  "preorder (Node s cs) = Node s cs # concat (map preorder cs)"

text \<open>\<^verbatim>\<open>forEachDescendant\<close> visits the descendants of a node in pre-order, the node itself
  excluded; the argument is the list of its children.\<close>

definition forEachDescendant :: "Node list \<Rightarrow> Node list" where
  "forEachDescendant cs = concat (map preorder cs)"

text \<open>The statements of a file as \<^verbatim>\<open>hasUseClientDirective\<close> reads them: whether a
  statement is an expression statement, whether its expression is a string literal, and
  the literal's text.\<close>

datatype Expression = StringLiteral jsstring | OtherExpression
datatype Statement = ExpressionStatement Expression | OtherStatement

text \<open>An import declaration: \<^verbatim>\<open>getModuleSpecifierValue()\<close> and the path of
  \<^verbatim>\<open>getModuleSpecifierSourceFile()\<close>, if there is one. A source file: its path, the
  children the traversal starts from, and what the four getters return.\<close>

record ImportDeclaration =
  moduleSpecifierValue :: jsstring
  moduleSpecifierSourceFile :: "jsstring option"

record SourceFile =
  getFilePath :: jsstring
  sourceChildren :: "Node list"
  getStatements :: "Statement list"
  getImportDeclarations :: "ImportDeclaration list"
  getExportSymbols :: "TsSymbol list"
  getDefaultExportSymbol :: "TsSymbol option"

text \<open>
  The surroundings the code reads: the environment variable
  \<^verbatim>\<open>ONTOCODE_EXTRACTOR_REPO\<close>, the compiler option \<^verbatim>\<open>rootDir\<close>, the working directory,
  and the library functions \<^verbatim>\<open>path.relative\<close> and the SHA-256 of a file's bytes in hex.
\<close>

record Host =
  env_ONTOCODE_EXTRACTOR_REPO :: "jsstring option"
  compilerOptions_rootDir :: "jsstring option"
  process_cwd :: jsstring
  path_relative :: "jsstring \<Rightarrow> jsstring \<Rightarrow> jsstring"
  sha256_hex_of_file :: "jsstring \<Rightarrow> jsstring"

section \<open>The fact records\<close>

record Span =
  startLine :: nat
  startCol :: nat
  endLine :: nat
  endCol :: nat

datatype UnitKind = Callable | Classifier | Variable | ParameterKind | TypeKind

fun kindText :: "UnitKind \<Rightarrow> jsstring" where
  "kindText Callable = js ''callable''"
| "kindText Classifier = js ''classifier''"
| "kindText Variable = js ''variable''"
| "kindText ParameterKind = js ''parameter''"
| "kindText TypeKind = js ''type''"

record UnitRecord =
  kind :: UnitKind
  name :: jsstring
  qualifiedName :: jsstring
  symbolId_of :: jsstring
  span :: Span
  astPath_of :: jsstring
  isExportedDefault :: bool
  isAsync_of :: bool

datatype ResolvedKind = Package | File | Unknown

record ImportRecord =
  importFrom :: jsstring
  resolvedKind :: ResolvedKind
  resolved :: "jsstring option"

record ExportRecord =
  exportName :: jsstring
  unitSymbolId :: "jsstring option"

datatype Relation = Calls | References | Reads | Writes

record OccurrenceRecord =
  relation :: Relation
  subjectSymbolId :: jsstring
  objectSymbolId :: "jsstring option"
  objectQName :: jsstring
  occurrenceSpan :: Span

record FileFacts =
  filePath :: jsstring
  sha256 :: jsstring
  units :: "UnitRecord list"
  imports_of :: "ImportRecord list"
  exports_of :: "ExportRecord list"
  occurrences :: "OccurrenceRecord list"
  extends :: "(jsstring \<times> jsstring) list"
  implements :: "(jsstring \<times> jsstring) list"
  hasUseClientDirective_of :: bool

section \<open>hasUseClientDirective\<close>

fun useClientLoop :: "Statement list \<Rightarrow> bool" where
  "useClientLoop [] = False"
| "useClientLoop (stmt # rest) =
     (case stmt of
        OtherStatement \<Rightarrow> False
      | ExpressionStatement expression \<Rightarrow>
          (case expression of
             OtherExpression \<Rightarrow> False
           | StringLiteral literalText \<Rightarrow>
               if literalText = js ''use client'' then True else useClientLoop rest))"

definition hasUseClientDirective :: "SourceFile \<Rightarrow> bool" where
  "hasUseClientDirective sourceFile = useClientLoop (getStatements sourceFile)"

section \<open>collectImportRecords\<close>

definition projectRoot :: "Host \<Rightarrow> jsstring" where
  "projectRoot host =
     (case env_ONTOCODE_EXTRACTOR_REPO host of
        Some r \<Rightarrow> r
      | None \<Rightarrow> (case compilerOptions_rootDir host of
                   Some d \<Rightarrow> d
                 | None \<Rightarrow> process_cwd host))"

definition importRecord :: "Host \<Rightarrow> ImportDeclaration \<Rightarrow> ImportRecord" where
  "importRecord host imp =
     (let spec = moduleSpecifierValue imp in
      case moduleSpecifierSourceFile imp of
        Some target \<Rightarrow>
          \<lparr>importFrom = spec, resolvedKind = File,
           resolved = Some (backslashToSlash (path_relative host (projectRoot host) target))\<rparr>
      | None \<Rightarrow>
          \<lparr>importFrom = spec,
           resolvedKind = (if startsWith spec (js ''.'') then Unknown else Package),
           resolved = None\<rparr>)"

definition collectImportRecords :: "Host \<Rightarrow> SourceFile \<Rightarrow> ImportRecord list" where
  "collectImportRecords host sourceFile = map (importRecord host) (getImportDeclarations sourceFile)"

section \<open>Symbol identity\<close>

text \<open>
  \<^verbatim>\<open>Buffer.from(value)\<close> encodes the string as UTF-8: a high surrogate followed by a low
  one is one code point of four bytes, any other surrogate becomes U+FFFD (EF BF BD).
\<close>

definition isHighSurrogate :: "16 word \<Rightarrow> bool" where
  "isHighSurrogate u = (0xD800 \<le> u \<and> u \<le> 0xDBFF)"

definition isLowSurrogate :: "16 word \<Rightarrow> bool" where
  "isLowSurrogate u = (0xDC00 \<le> u \<and> u \<le> 0xDFFF)"

definition utf8CodePoint :: "nat \<Rightarrow> byte list" where
  "utf8CodePoint cp =
     (if cp < 0x80 then [of_nat cp]
      else if cp < 0x800 then [of_nat (0xC0 + cp div 64), of_nat (0x80 + cp mod 64)]
      else if cp < 0x10000 then
        [of_nat (0xE0 + cp div 4096), of_nat (0x80 + cp div 64 mod 64), of_nat (0x80 + cp mod 64)]
      else
        [of_nat (0xF0 + cp div 262144), of_nat (0x80 + cp div 4096 mod 64),
         of_nat (0x80 + cp div 64 mod 64), of_nat (0x80 + cp mod 64)])"

definition surrogatePair :: "16 word \<Rightarrow> 16 word \<Rightarrow> nat" where
  "surrogatePair hi lo = 0x10000 + (unat hi - 0xD800) * 1024 + (unat lo - 0xDC00)"

definition replacementBytes :: "byte list" where
  "replacementBytes = [0xEF, 0xBF, 0xBD]"

fun Buffer_from :: "jsstring \<Rightarrow> byte list" where
  "Buffer_from [] = []"
| "Buffer_from [u] =
     (if isHighSurrogate u \<or> isLowSurrogate u then replacementBytes else utf8CodePoint (unat u))"
| "Buffer_from (u # v # rest) =
     (if isHighSurrogate u \<and> isLowSurrogate v then utf8CodePoint (surrogatePair u v) @ Buffer_from rest
      else if isHighSurrogate u \<or> isLowSurrogate u then replacementBytes @ Buffer_from (v # rest)
      else utf8CodePoint (unat u) @ Buffer_from (v # rest))"

text \<open>\<^verbatim>\<open>buffer.toString("base64")\<close>: three bytes become four characters of the alphabet,
  a last group of one or two bytes is padded with \<open>=\<close>.\<close>

definition base64Alphabet :: jsstring where
  "base64Alphabet = js ''ABCDEFGHIJKLMNOPQRSTUVWXYZabcdefghijklmnopqrstuvwxyz0123456789+/''"

definition base64Char :: "nat \<Rightarrow> 16 word" where
  "base64Char i = base64Alphabet ! i"

fun toString_base64 :: "byte list \<Rightarrow> jsstring" where
  "toString_base64 [] = []"
| "toString_base64 [a] =
     [base64Char (unat a div 4), base64Char (unat a mod 4 * 16), 0x3D, 0x3D]"
| "toString_base64 [a, b] =
     [base64Char (unat a div 4), base64Char (unat a mod 4 * 16 + unat b div 16),
      base64Char (unat b mod 16 * 4), 0x3D]"
| "toString_base64 (a # b # c # rest) =
     [base64Char (unat a div 4), base64Char (unat a mod 4 * 16 + unat b div 16),
      base64Char (unat b mod 16 * 4 + unat c div 64), base64Char (unat c mod 64)]
     @ toString_base64 rest"

definition BASE64_MAP :: "(jsstring \<times> jsstring) list" where
  "BASE64_MAP = [(js ''+'', js ''-''), (js ''/'', js ''_''), (js ''='', [])]"

text \<open>\<^verbatim>\<open>.replace(/[+/=]/g, (m) => BASE64_MAP[m])\<close>: each matched character is replaced by
  its entry in the table (a missing entry would print as \<open>undefined\<close>).\<close>

definition replaceBase64Char :: "16 word \<Rightarrow> jsstring" where
  "replaceBase64Char m =
     (if m = 0x2B \<or> m = 0x2F \<or> m = 0x3D
      then (case map_of BASE64_MAP [m] of Some r \<Rightarrow> r | None \<Rightarrow> js ''undefined'')
      else [m])"

definition base64Url :: "jsstring \<Rightarrow> jsstring" where
  "base64Url v = concat (map replaceBase64Char (toString_base64 (Buffer_from v)))"

definition symbolId :: "jsstring \<Rightarrow> jsstring \<Rightarrow> jsstring" where
  "symbolId knd qn = base64Url (js ''ts:'' @ knd @ js '':'' @ qn)"

section \<open>Qualified names\<close>

text \<open>\<^verbatim>\<open>relativePath.replace(/\.[^.]+$/, "")\<close> removes the text from the last dot on, unless
  the string has no dot or ends with one.\<close>

definition stripExtension :: "jsstring \<Rightarrow> jsstring" where
  "stripExtension s =
     (let ext = takeWhile (\<lambda>c. c \<noteq> 0x2E) (rev s) in
      if ext = [] \<or> length ext = length s then s
      else take (length s - length ext - 1) s)"

text \<open>\<^verbatim>\<open>.replace(/[\\/]+/g, ".")\<close>: each run of slashes and backslashes becomes one dot.\<close>

fun separatorsToDots :: "bool \<Rightarrow> jsstring \<Rightarrow> jsstring" where
  "separatorsToDots inRun [] = []"
| "separatorsToDots inRun (c # cs) =
     (if c = 0x5C \<or> c = 0x2F
      then (if inRun then separatorsToDots True cs else 0x2E # separatorsToDots True cs)
      else c # separatorsToDots False cs)"

definition moduleQualifiedName :: "jsstring \<Rightarrow> jsstring" where
  "moduleQualifiedName relativePath = separatorsToDots False (stripExtension relativePath)"

definition spanFromNode :: "NodeInfo \<Rightarrow> Span" where
  "spanFromNode n =
     \<lparr>startLine = fst (startLineAndColumn n), startCol = snd (startLineAndColumn n),
      endLine = fst (endLineAndColumn n), endCol = snd (endLineAndColumn n)\<rparr>"

definition inferUnitKind :: "Declaration \<Rightarrow> UnitKind" where
  "inferUnitKind node =
     (case getKind node of
        FunctionDeclaration \<Rightarrow> Callable
      | MethodDeclaration \<Rightarrow> Callable
      | FunctionExpression \<Rightarrow> Callable
      | ArrowFunction \<Rightarrow> Callable
      | Constructor \<Rightarrow> Callable
      | GetAccessor \<Rightarrow> Callable
      | SetAccessor \<Rightarrow> Callable
      | ClassDeclaration \<Rightarrow> Classifier
      | InterfaceDeclaration \<Rightarrow> Classifier
      | EnumDeclaration \<Rightarrow> Classifier
      | VariableDeclaration \<Rightarrow> Variable
      | Parameter \<Rightarrow> ParameterKind
      | _ \<Rightarrow> TypeKind)"

text \<open>\<^verbatim>\<open>if (name)\<close> on a string that may be undefined: defined and not empty.\<close>

definition truthy :: "jsstring option \<Rightarrow> bool" where
  "truthy s = (case s of None \<Rightarrow> False | Some t \<Rightarrow> t \<noteq> [])"

definition inferNodeName :: "Declaration \<Rightarrow> jsstring option" where
  "inferNodeName node =
     (let k = getKind node in
      if k = FunctionDeclaration \<and> truthy (getName node) then getName node
      else if k = FunctionDeclaration \<and> DefaultKeyword \<in> set (modifiers node) then Some (js ''default'')
      else if k = VariableDeclaration then nameNodeText node
      else if (k = ClassDeclaration \<or> k = InterfaceDeclaration \<or> k = EnumDeclaration)
              \<and> truthy (getName node) then getName node
      else if (k = MethodDeclaration \<or> k = GetAccessor \<or> k = SetAccessor)
              \<and> nameNodeText node \<noteq> None then nameNodeText node
      else if k = ArrowFunction then Some (js ''arrow'')
      else if k = FunctionExpression then Some (js ''anonymous'')
      else None)"

definition buildQualifiedName :: "Host \<Rightarrow> jsstring \<Rightarrow> Declaration \<Rightarrow> jsstring option" where
  "buildQualifiedName host sourceFilePath node =
     (let baseRoot = projectRoot host;
          relPath = backslashToSlash (path_relative host baseRoot sourceFilePath);
          moduleName = moduleQualifiedName relPath;
          baseName = (case symbolName node of Some n \<Rightarrow> Some n | None \<Rightarrow> inferNodeName node)
      in if \<not> truthy baseName then None
         else map_option (\<lambda>b. moduleName @ js ''.'' @ b) baseName)"

definition exportDefaultSymbolId :: "Host \<Rightarrow> SourceFile \<Rightarrow> jsstring option" where
  "exportDefaultSymbolId host sourceFile =
     (case getDefaultExportSymbol sourceFile of
        None \<Rightarrow> None
      | Some defaultExport \<Rightarrow>
          (case getDeclarations defaultExport of
             [] \<Rightarrow> None
           | d # _ \<Rightarrow>
               (let qn = buildQualifiedName host (getFilePath sourceFile) d in
                if \<not> truthy qn then None
                else map_option (symbolId (kindText (inferUnitKind d))) qn)))"

section \<open>collectExportRecords\<close>

definition exportStep :: "Host \<Rightarrow> SourceFile \<Rightarrow> ExportRecord list \<Rightarrow> TsSymbol \<Rightarrow> ExportRecord list" where
  "exportStep host sourceFile acc exported =
     (case getDeclarations exported of
        [] \<Rightarrow> acc
      | d # _ \<Rightarrow>
          (let knd = inferUnitKind d;
               qn = buildQualifiedName host (getFilePath sourceFile) d;
               ident = (if truthy qn then map_option (symbolId (kindText knd)) qn else None)
           in acc @ [\<lparr>exportName = symbolGetName exported, unitSymbolId = ident\<rparr>]))"

definition collectExportRecords :: "Host \<Rightarrow> SourceFile \<Rightarrow> ExportRecord list" where
  "collectExportRecords host sourceFile =
     (let exps = foldl (exportStep host sourceFile) [] (getExportSymbols sourceFile);
          defaultId = exportDefaultSymbolId host sourceFile
      in if truthy defaultId
         then exps @ [\<lparr>exportName = js ''default'', unitSymbolId = defaultId\<rparr>]
         else exps)"

section \<open>collectCallOccurrences\<close>

text \<open>\<^verbatim>\<open>qn.replace(/["']/g, "").replace(/\//g, ".")\<close>\<close>

definition stripQuotesAndSlashes :: "jsstring \<Rightarrow> jsstring" where
  "stripQuotesAndSlashes qn =
     map (\<lambda>c. if c = 0x2F then 0x2E else c) (filter (\<lambda>c. c \<noteq> 0x22 \<and> c \<noteq> 0x27) qn)"

definition callOccurrence :: "Host \<Rightarrow> jsstring \<Rightarrow> NodeInfo \<Rightarrow> OccurrenceRecord" where
  "callOccurrence host subjectId node =
     (let symbol = expressionSymbol node;
          qn = (case symbol of Some s \<Rightarrow> fullyQualifiedName s | None \<Rightarrow> expressionText node);
          objectDecl = (case symbol of
                          None \<Rightarrow> None
                        | Some s \<Rightarrow> (case getDeclarations s of [] \<Rightarrow> None | d # _ \<Rightarrow> Some d));
          objectId =
            (case objectDecl of
               None \<Rightarrow> None
             | Some d \<Rightarrow>
                 (let objectQn = buildQualifiedName host (declFilePath d) d in
                  if truthy objectQn then map_option (symbolId (kindText (inferUnitKind d))) objectQn
                  else None))
      in \<lparr>relation = Calls, subjectSymbolId = subjectId, objectSymbolId = objectId,
          objectQName = stripQuotesAndSlashes qn, occurrenceSpan = spanFromNode node\<rparr>)"

definition callStep :: "Host \<Rightarrow> jsstring \<Rightarrow> OccurrenceRecord list \<Rightarrow> Node \<Rightarrow> OccurrenceRecord list" where
  "callStep host subjectId occs node =
     (if getKind (decl (info node)) \<noteq> CallExpression then occs
      else occs @ [callOccurrence host subjectId (info node)])"

definition collectCallOccurrences :: "Host \<Rightarrow> Node \<Rightarrow> jsstring \<Rightarrow> OccurrenceRecord list" where
  "collectCallOccurrences host container subjectId =
     foldl (callStep host subjectId) [] (forEachDescendant (forEachChild container))"

section \<open>collectUnits\<close>

definition isUnitNode :: "SyntaxKind \<Rightarrow> bool" where
  "isUnitNode k =
     (\<not> (k \<noteq> FunctionDeclaration \<and> k \<noteq> FunctionExpression \<and> k \<noteq> ArrowFunction
         \<and> k \<noteq> MethodDeclaration \<and> k \<noteq> ClassDeclaration \<and> k \<noteq> InterfaceDeclaration
         \<and> k \<noteq> EnumDeclaration))"

definition unitRecord :: "Host \<Rightarrow> SourceFile \<Rightarrow> Node \<Rightarrow> jsstring \<Rightarrow> UnitRecord" where
  "unitRecord host sourceFile node qn =
     (let d = decl (info node);
          knd = inferUnitKind d;
          ident = symbolId (kindText knd) qn;
          isDefault = (case getDefaultExportSymbol sourceFile of
                         None \<Rightarrow> False
                       | Some s \<Rightarrow> nodeId d \<in> set (map nodeId (getDeclarations s)))
      in \<lparr>kind = knd,
          name = (case inferNodeName d of Some n \<Rightarrow> n | None \<Rightarrow> getKindName d),
          qualifiedName = qn,
          symbolId_of = ident,
          span = spanFromNode (info node),
          astPath_of = astPathText (info node),
          isExportedDefault = (DefaultKeyword \<in> set (modifiers d) \<or> isDefault),
          isAsync_of = isAsync (info node)\<rparr>)"

text \<open>The callback of \<^verbatim>\<open>collectUnits\<close> up to the record it builds: \<open>None\<close> where it
  returns early.\<close>

definition unitOfNode :: "Host \<Rightarrow> SourceFile \<Rightarrow> Node \<Rightarrow> UnitRecord option" where
  "unitOfNode host sourceFile node =
     (if \<not> isUnitNode (getKind (decl (info node))) then None
      else
        (case buildQualifiedName host (getFilePath sourceFile) (decl (info node)) of
           None \<Rightarrow> None
         | Some qn \<Rightarrow> if qn = [] then None else Some (unitRecord host sourceFile node qn)))"

definition isFunctionLike :: "SyntaxKind \<Rightarrow> bool" where
  "isFunctionLike k =
     (k = FunctionDeclaration \<or> k = MethodDeclaration \<or> k = ArrowFunction \<or> k = FunctionExpression)"

definition unitStep ::
  "Host \<Rightarrow> SourceFile \<Rightarrow> UnitRecord list \<times> OccurrenceRecord list \<Rightarrow> Node
     \<Rightarrow> UnitRecord list \<times> OccurrenceRecord list" where
  "unitStep host sourceFile acc node =
     (case unitOfNode host sourceFile node of
        None \<Rightarrow> acc
      | Some u \<Rightarrow>
          (fst acc @ [u],
           snd acc @ (if isFunctionLike (getKind (decl (info node)))
                      then collectCallOccurrences host node (symbolId_of u) else [])))"

definition collectUnits :: "Host \<Rightarrow> SourceFile \<Rightarrow> UnitRecord list \<times> OccurrenceRecord list" where
  "collectUnits host sourceFile =
     foldl (unitStep host sourceFile) ([], []) (forEachDescendant (sourceChildren sourceFile))"

section \<open>collectFacts\<close>

definition collectFacts :: "Host \<Rightarrow> SourceFile \<Rightarrow> FileFacts" where
  "collectFacts host sourceFile =
     (let relPath = getFilePath sourceFile;
          collected = collectUnits host sourceFile
      in \<lparr>filePath = relPath,
          sha256 = sha256_hex_of_file host (getFilePath sourceFile),
          units = fst collected,
          imports_of = collectImportRecords host sourceFile,
          exports_of = collectExportRecords host sourceFile,
          occurrences = snd collected,
          extends = [],
          implements = [],
          hasUseClientDirective_of = hasUseClientDirective sourceFile\<rparr>)"

section \<open>The command-line driver\<close>

datatype JsonValue = JsonString jsstring | JsonArray "JsonValue list" | JsonOther

text \<open>
  What \<^verbatim>\<open>main\<close> reads: the variable \<^verbatim>\<open>ONTOCODE_FILE_LIST\<close>, \<^verbatim>\<open>JSON.parse\<close> (\<open>None\<close> when
  it throws), \<^verbatim>\<open>path.resolve\<close>, the list the glob returns, and the project's two look-ups
  of a source file.
\<close>

record Process =
  env_ONTOCODE_FILE_LIST :: "jsstring option"
  JSON_parse :: "jsstring \<Rightarrow> JsonValue option"
  path_resolve :: "jsstring \<Rightarrow> jsstring \<Rightarrow> jsstring"
  fastGlob :: "jsstring list"
  project_getSourceFile :: "jsstring \<Rightarrow> SourceFile option"
  project_addSourceFileAtPathIfExists :: "jsstring \<Rightarrow> SourceFile option"

record RunResult =
  exitCode :: nat
  stdout :: "FileFacts list"

text \<open>\<^verbatim>\<open>parsed.map((rel) => path.resolve(repo, rel))\<close> throws on an element that is not a
  string, as \<^verbatim>\<open>parsed.map\<close> does on a value that is not an array.\<close>

fun resolveAll :: "(jsstring \<Rightarrow> jsstring) \<Rightarrow> JsonValue list \<Rightarrow> jsstring list option" where
  "resolveAll resolve [] = Some []"
| "resolveAll resolve (JsonString rel # rest) = map_option ((#) (resolve rel)) (resolveAll resolve rest)"
| "resolveAll resolve (_ # rest) = None"

definition parseFileList :: "Process \<Rightarrow> jsstring \<Rightarrow> jsstring \<Rightarrow> jsstring list option" where
  "parseFileList proc repo envList =
     (case JSON_parse proc envList of
        None \<Rightarrow> None
      | Some (JsonArray parsed) \<Rightarrow> resolveAll (path_resolve proc repo) parsed
      | Some _ \<Rightarrow> None)"

definition lookupSource :: "Process \<Rightarrow> jsstring \<Rightarrow> SourceFile option" where
  "lookupSource proc file =
     (case project_getSourceFile proc file of
        Some s \<Rightarrow> Some s
      | None \<Rightarrow> project_addSourceFileAtPathIfExists proc file)"

text \<open>\<^verbatim>\<open>path.relative(repo, file).replace(/\\/g, "/")\<close>\<close>

definition outputPath :: "Host \<Rightarrow> jsstring \<Rightarrow> jsstring \<Rightarrow> jsstring" where
  "outputPath host repo file = backslashToSlash (path_relative host repo file)"

fun mainLoop :: "Host \<Rightarrow> Process \<Rightarrow> jsstring \<Rightarrow> jsstring list \<Rightarrow> jsstring list \<Rightarrow> FileFacts list" where
  "mainLoop host proc repo seen [] = []"
| "mainLoop host proc repo seen (file # files) =
     (if file \<in> set seen then mainLoop host proc repo seen files
      else
        (case lookupSource proc file of
           None \<Rightarrow> mainLoop host proc repo (file # seen) files
         | Some source \<Rightarrow>
             (collectFacts host source)\<lparr>filePath := outputPath host repo file\<rparr>
             # mainLoop host proc repo (file # seen) files))"

text \<open>The file list: the override when \<^verbatim>\<open>if (envList)\<close> holds, that is when the
  variable is set and not empty (\<open>None\<close> when the \<^verbatim>\<open>try\<close> block throws), and the
  glob's result otherwise.\<close>

definition fileList :: "Process \<Rightarrow> jsstring \<Rightarrow> jsstring list option" where
  "fileList proc repo =
     (case env_ONTOCODE_FILE_LIST proc of
        None \<Rightarrow> Some (fastGlob proc)
      | Some envList \<Rightarrow>
          if truthy (Some envList) then parseFileList proc repo envList
          else Some (fastGlob proc))"

definition main :: "Host \<Rightarrow> Process \<Rightarrow> jsstring \<Rightarrow> RunResult" where
  "main host proc repo =
     (case fileList proc repo of
        None \<Rightarrow> \<lparr>exitCode = 1, stdout = []\<rparr>
      | Some files \<Rightarrow> \<lparr>exitCode = 0, stdout = mainLoop host proc repo [] files\<rparr>)"

section \<open>Notions used to state the properties\<close>

definition useClientStatement :: Statement where
  "useClientStatement = ExpressionStatement (StringLiteral (js ''use client''))"

fun isStringLiteralStatement :: "Statement \<Rightarrow> bool" where
  "isStringLiteralStatement (ExpressionStatement (StringLiteral t)) = True"
| "isStringLiteralStatement _ = False"

text \<open>The first occurrence of every element that is not in \<open>seen\<close>, in order.\<close>

fun firstOccurrences :: "'a list \<Rightarrow> 'a list \<Rightarrow> 'a list" where
  "firstOccurrences seen [] = []"
| "firstOccurrences seen (x # xs) =
     (if x \<in> set seen then firstOccurrences seen xs else x # firstOccurrences (x # seen) xs)"

definition isCallNode :: "Node \<Rightarrow> bool" where
  "isCallNode n = (getKind (decl (info n)) = CallExpression)"

text \<open>The call expressions below a node, in the order of the traversal.\<close>

definition callsIn :: "Node \<Rightarrow> Node list" where
  "callsIn container = filter isCallNode (forEachDescendant (forEachChild container))"

text \<open>The name a call is recorded under before quotes and slashes are rewritten, and
  whether its callee has no declaration.\<close>

definition calleeName :: "NodeInfo \<Rightarrow> jsstring" where
  "calleeName n =
     (case expressionSymbol n of Some s \<Rightarrow> fullyQualifiedName s | None \<Rightarrow> expressionText n)"

definition unresolvedCallee :: "NodeInfo \<Rightarrow> bool" where
  "unresolvedCallee n =
     (case expressionSymbol n of None \<Rightarrow> True | Some s \<Rightarrow> getDeclarations s = [])"

text \<open>The occurrence records one node contributes in \<open>collectUnits\<close>.\<close>

definition callsOfNode :: "Host \<Rightarrow> SourceFile \<Rightarrow> Node \<Rightarrow> OccurrenceRecord list" where
  "callsOfNode host sf n =
     (case unitOfNode host sf n of
        None \<Rightarrow> []
      | Some u \<Rightarrow> if isFunctionLike (getKind (decl (info n)))
                  then collectCallOccurrences host n (symbolId_of u) else [])"

definition unitKinds :: "SyntaxKind set" where
  "unitKinds = {FunctionDeclaration, FunctionExpression, ArrowFunction, MethodDeclaration,
                ClassDeclaration, InterfaceDeclaration, EnumDeclaration}"

text \<open>The token decoded, as the specification words it: the character map reversed, the
  padding restored, the result decoded from base64.\<close>

fun indexOf :: "'a \<Rightarrow> 'a list \<Rightarrow> nat option" where
  "indexOf c [] = None"
| "indexOf c (x # xs) = (if c = x then Some 0 else map_option Suc (indexOf c xs))"

definition base64Index :: "16 word \<Rightarrow> nat option" where
  "base64Index c = indexOf c base64Alphabet"

fun fromBase64 :: "jsstring \<Rightarrow> byte list option" where
  "fromBase64 [] = Some []"
| "fromBase64 (c0 # c1 # c2 # c3 # rest) =
     (case (base64Index c0, base64Index c1) of
        (Some i0, Some i1) \<Rightarrow>
          if c2 = 0x3D \<and> c3 = 0x3D \<and> rest = [] then Some [of_nat (i0 * 4 + i1 div 16)]
          else
            (case base64Index c2 of
               None \<Rightarrow> None
             | Some i2 \<Rightarrow>
                 if c3 = 0x3D \<and> rest = []
                 then Some [of_nat (i0 * 4 + i1 div 16), of_nat (i1 mod 16 * 16 + i2 div 4)]
                 else
                   (case base64Index c3 of
                      None \<Rightarrow> None
                    | Some i3 \<Rightarrow>
                        map_option
                          (\<lambda>bs. [of_nat (i0 * 4 + i1 div 16), of_nat (i1 mod 16 * 16 + i2 div 4),
                                 of_nat (i2 mod 4 * 64 + i3)] @ bs)
                          (fromBase64 rest)))
      | _ \<Rightarrow> None)"
| "fromBase64 _ = None"

definition restorePadding :: "jsstring \<Rightarrow> jsstring" where
  "restorePadding s = s @ replicate ((4 - length s mod 4) mod 4) 0x3D"

definition reverseCharacterMap :: "jsstring \<Rightarrow> jsstring" where
  "reverseCharacterMap t = map (\<lambda>c. if c = 0x2D then 0x2B else if c = 0x5F then 0x2F else c) t"

definition decodeToken :: "jsstring \<Rightarrow> byte list option" where
  "decodeToken t = fromBase64 (restorePadding (reverseCharacterMap t))"

text \<open>The token of a byte string, as the specification words it: its base64 encoding with
  \<open>+\<close> replaced by \<open>-\<close>, \<open>/\<close> by \<open>_\<close>, and the padding stripped.\<close>

definition base64UrlOfBytes :: "byte list \<Rightarrow> jsstring" where
  "base64UrlOfBytes bytes =
     map (\<lambda>c. if c = 0x2B then 0x2D else if c = 0x2F then 0x5F else c)
       (filter (\<lambda>c. c \<noteq> 0x3D) (toString_base64 bytes))"

text \<open>A string is well formed when every surrogate code unit is part of a pair, a high one
  followed by a low one.\<close>

fun wellFormed :: "jsstring \<Rightarrow> bool" where
  "wellFormed [] = True"
| "wellFormed [u] = (\<not> isHighSurrogate u \<and> \<not> isLowSurrogate u)"
| "wellFormed (u # v # rest) =
     (if isHighSurrogate u then isLowSurrogate v \<and> wellFormed rest
      else \<not> isLowSurrogate u \<and> wellFormed (v # rest))"

text \<open>The bytes of a code point as numbers, and the code units read back from such
  bytes; both serve the proof that the encoding loses nothing on well-formed strings.\<close>

definition natBytes :: "nat \<Rightarrow> nat list" where
  "natBytes cp =
     (if cp < 0x80 then [cp]
      else if cp < 0x800 then [0xC0 + cp div 64, 0x80 + cp mod 64]
      else if cp < 0x10000 then [0xE0 + cp div 4096, 0x80 + cp div 64 mod 64, 0x80 + cp mod 64]
      else [0xF0 + cp div 262144, 0x80 + cp div 4096 mod 64, 0x80 + cp div 64 mod 64,
            0x80 + cp mod 64])"

fun decodeUnits :: "nat list \<Rightarrow> nat list" where
  "decodeUnits [] = []"
| "decodeUnits (b0 # bs) =
     (if b0 < 0x80 then b0 # decodeUnits bs
      else if b0 < 0xE0 then
        (case bs of
           b1 # r \<Rightarrow> ((b0 - 0xC0) * 64 + (b1 - 0x80)) # decodeUnits r
         | _ \<Rightarrow> [])
      else if b0 < 0xF0 then
        (case bs of
           b1 # b2 # r \<Rightarrow> ((b0 - 0xE0) * 4096 + (b1 - 0x80) * 64 + (b2 - 0x80)) # decodeUnits r
         | _ \<Rightarrow> [])
      else
        (case bs of
           b1 # b2 # b3 # r \<Rightarrow>
             (0xD800 + ((b0 - 0xF0) * 262144 + (b1 - 0x80) * 4096 + (b2 - 0x80) * 64 + (b3 - 0x80)
                        - 0x10000) div 1024)
             # (0xDC00 + ((b0 - 0xF0) * 262144 + (b1 - 0x80) * 4096 + (b2 - 0x80) * 64 + (b3 - 0x80)
                        - 0x10000) mod 1024)
             # decodeUnits r
         | _ \<Rightarrow> []))"

text \<open>A path lies inside a directory when it starts with the directory's path and a
  separator.\<close>

definition insideDirectory :: "jsstring \<Rightarrow> jsstring \<Rightarrow> bool" where
  "insideDirectory dir p = startsWith p (dir @ js ''/'')"








section \<open>Concrete inputs\<close>

text \<open>A stand-in for \<^verbatim>\<open>path.relative\<close> on paths below the root: the root and the
  separator after it are dropped.\<close>

definition dropRoot :: "jsstring \<Rightarrow> jsstring \<Rightarrow> jsstring" where
  "dropRoot root p = (if startsWith p root then drop (length root + 1) p else p)"

definition repoHost :: Host where
  "repoHost =
     \<lparr>env_ONTOCODE_EXTRACTOR_REPO = Some (js ''/repo''), compilerOptions_rootDir = None,
      process_cwd = js ''/repo'', path_relative = dropRoot, sha256_hex_of_file = (\<lambda>p. js ''00'')\<rparr>"

definition emptyFile :: "jsstring \<Rightarrow> SourceFile" where
  "emptyFile p =
     \<lparr>getFilePath = p, sourceChildren = [], getStatements = [],
      getImportDeclarations = [], getExportSymbols = [], getDefaultExportSymbol = None\<rparr>"

text \<open>\<^verbatim>\<open>"use strict"; "use client";\<close>\<close>

definition strictThenClient :: SourceFile where
  "strictThenClient =
     (emptyFile (js ''/repo/page.tsx''))
       \<lparr>getStatements := [ExpressionStatement (StringLiteral (js ''use strict'')),
                          ExpressionStatement (StringLiteral (js ''use client''))]\<rparr>"

text \<open>\<^verbatim>\<open>import "./b"; import "react"; import "./missing";\<close> where only the first
  specifier resolves.\<close>

definition threeImports :: SourceFile where
  "threeImports =
     (emptyFile (js ''/repo/src/a.ts''))
       \<lparr>getImportDeclarations :=
          [\<lparr>moduleSpecifierValue = js ''./b'', moduleSpecifierSourceFile = Some (js ''/repo/src/b.ts'')\<rparr>,
           \<lparr>moduleSpecifierValue = js ''react'', moduleSpecifierSourceFile = None\<rparr>,
           \<lparr>moduleSpecifierValue = js ''./missing'', moduleSpecifierSourceFile = None\<rparr>]\<rparr>"

definition malformedListProcess :: Process where
  "malformedListProcess =
     \<lparr>env_ONTOCODE_FILE_LIST = Some (js ''[oops''), JSON_parse = (\<lambda>s. None),
      path_resolve = (\<lambda>repo rel. repo @ js ''/'' @ rel), fastGlob = [js ''/repo/a.ts''],
      project_getSourceFile = (\<lambda>p. Some (emptyFile p)),
      project_addSourceFileAtPathIfExists = (\<lambda>p. None)\<rparr>"

definition duplicateListProcess :: Process where
  "duplicateListProcess =
     \<lparr>env_ONTOCODE_FILE_LIST = None, JSON_parse = (\<lambda>s. None),
      path_resolve = (\<lambda>repo rel. repo @ js ''/'' @ rel),
      fastGlob = [js ''/repo/a.ts'', js ''/repo/b.ts'', js ''/repo/a.ts''],
      project_getSourceFile = (\<lambda>p. Some (emptyFile p)),
      project_addSourceFileAtPathIfExists = (\<lambda>p. None)\<rparr>"

text \<open>\<^verbatim>\<open>import "../../other/x";\<close> in \<^verbatim>\<open>/repo/src/a.ts\<close>, resolving to a file outside the
  project root \<^verbatim>\<open>/repo\<close>; the host's \<^verbatim>\<open>path.relative\<close> climbs out of the one-component
  root with \<^verbatim>\<open>..\<close>.\<close>

definition outsideHost :: Host where
  "outsideHost =
     \<lparr>env_ONTOCODE_EXTRACTOR_REPO = Some (js ''/repo''), compilerOptions_rootDir = None,
      process_cwd = js ''/repo'',
      path_relative = (\<lambda>root p. if startsWith p (root @ js ''/'') then drop (length root + 1) p
                                else js ''..'' @ p),
      sha256_hex_of_file = (\<lambda>p. js ''00'')\<rparr>"

definition outsideImport :: SourceFile where
  "outsideImport =
     (emptyFile (js ''/repo/src/a.ts''))
       \<lparr>getImportDeclarations :=
          [\<lparr>moduleSpecifierValue = js ''../../other/x'',
            moduleSpecifierSourceFile = Some (js ''/other/x.ts'')\<rparr>]\<rparr>"

text \<open>A host without the environment override, whose root is the compiler's
  \<^verbatim>\<open>rootDir\<close> and whose \<^verbatim>\<open>path.relative\<close> separates with backslashes.\<close>

definition backslashHost :: Host where
  "backslashHost =
     \<lparr>env_ONTOCODE_EXTRACTOR_REPO = None, compilerOptions_rootDir = Some (js ''/repo''),
      process_cwd = js ''/elsewhere'',
      path_relative = (\<lambda>root p. map (\<lambda>c. if c = 0x2F then 0x5C else c) (drop (length root + 1) p)),
      sha256_hex_of_file = (\<lambda>p. js ''00'')\<rparr>"

text \<open>\<^verbatim>\<open>ONTOCODE_FILE_LIST\<close> set to the empty string, on which \<^verbatim>\<open>JSON.parse\<close> throws.\<close>

definition emptyListProcess :: Process where
  "emptyListProcess =
     \<lparr>env_ONTOCODE_FILE_LIST = Some [],
      JSON_parse = (\<lambda>s. if s = js ''[]'' then Some (JsonArray []) else None),
      path_resolve = (\<lambda>repo rel. repo @ js ''/'' @ rel), fastGlob = [js ''/repo/a.ts''],
      project_getSourceFile = (\<lambda>p. Some (emptyFile p)),
      project_addSourceFileAtPathIfExists = (\<lambda>p. None)\<rparr>"

text \<open>Nodes of \<^verbatim>\<open>/repo/a.ts\<close>: a declaration by identity, kind, kind name and symbol name;
  a node by its declaration, the positions of its start and end, and its children.\<close>

definition declOf :: "nat \<Rightarrow> SyntaxKind \<Rightarrow> string \<Rightarrow> string option \<Rightarrow> Declaration" where
  "declOf i k kn sn =
     \<lparr>nodeId = i, getKind = k, getKindName = js kn, symbolName = map_option js sn,
      getName = None, nameNodeText = None, modifiers = [], declFilePath = js ''/repo/a.ts''\<rparr>"

definition nodeOf :: "Declaration \<Rightarrow> nat \<times> nat \<Rightarrow> nat \<times> nat \<Rightarrow> Node list \<Rightarrow> Node" where
  "nodeOf d p q cs =
     Node \<lparr>decl = d, isAsync = False, startLineAndColumn = p, endLineAndColumn = q,
           astPathText = [], expressionText = [], expressionSymbol = None\<rparr> cs"

definition callOf :: "Declaration \<Rightarrow> nat \<times> nat \<Rightarrow> nat \<times> nat \<Rightarrow> string \<Rightarrow> Node list \<Rightarrow> Node" where
  "callOf d p q txt cs =
     Node \<lparr>decl = d, isAsync = False, startLineAndColumn = p, endLineAndColumn = q,
           astPathText = [], expressionText = js txt, expressionSymbol = None\<rparr> cs"

text \<open>\<^verbatim>\<open>function f() { () => { ""(); }; }\<close>: one call expression, whose callee is the
  empty string literal, inside an arrow function inside a function.\<close>

definition quotedCall :: Node where
  "quotedCall =
     callOf (declOf 7 CallExpression ''CallExpression'' None) (1, 24) (1, 28) [CHR 0x22, CHR 0x22]
       [nodeOf (declOf 8 (OtherKind 11) ''StringLiteral'' None) (1, 24) (1, 26) []]"

definition innerArrow :: Node where
  "innerArrow =
     nodeOf (declOf 4 ArrowFunction ''ArrowFunction'' (Some ''__function'')) (1, 16) (1, 31)
       [nodeOf (declOf 5 (OtherKind 39) ''EqualsGreaterThanToken'' None) (1, 19) (1, 21) [],
        nodeOf (declOf 6 (OtherKind 241) ''Block'' None) (1, 22) (1, 31)
          [nodeOf (declOf 9 (OtherKind 244) ''ExpressionStatement'' None) (1, 24) (1, 29)
             [quotedCall]]]"

definition outerFunction :: Node where
  "outerFunction =
     nodeOf ((declOf 1 FunctionDeclaration ''FunctionDeclaration'' (Some ''f''))
               \<lparr>getName := Some (js ''f'')\<rparr>) (1, 1) (1, 34)
       [nodeOf (declOf 2 (OtherKind 80) ''Identifier'' (Some ''f'')) (1, 10) (1, 11) [],
        nodeOf (declOf 3 (OtherKind 241) ''Block'' None) (1, 14) (1, 34)
          [nodeOf (declOf 10 (OtherKind 244) ''ExpressionStatement'' None) (1, 16) (1, 32)
             [innerArrow]]]"

definition nestedCallFile :: SourceFile where
  "nestedCallFile =
     (emptyFile (js ''/repo/a.ts''))
       \<lparr>sourceChildren := [outerFunction], getStatements := [OtherStatement]\<rparr>"

text \<open>\<^verbatim>\<open>function g() { lib["a/b"](); }\<close> with \<open>lib\<close> unknown to the checker.\<close>

definition externalCaller :: Node where
  "externalCaller =
     nodeOf ((declOf 1 FunctionDeclaration ''FunctionDeclaration'' (Some ''g''))
               \<lparr>getName := Some (js ''g'')\<rparr>) (1, 1) (1, 31)
       [nodeOf (declOf 2 (OtherKind 80) ''Identifier'' (Some ''g'')) (1, 10) (1, 11) [],
        nodeOf (declOf 3 (OtherKind 241) ''Block'' None) (1, 14) (1, 31)
          [nodeOf (declOf 4 (OtherKind 244) ''ExpressionStatement'' None) (1, 16) (1, 29)
             [callOf (declOf 5 CallExpression ''CallExpression'' None) (1, 16) (1, 28)
                (''lib['' @ [CHR 0x22] @ ''a/b'' @ [CHR 0x22] @ '']'')
                [nodeOf (declOf 6 (OtherKind 212) ''ElementAccessExpression'' None) (1, 16) (1, 26) []]]]]"

text \<open>\<^verbatim>\<open>export default () => {};\<close> as the compiler binds it: the declaration of the
  file's \<open>default\<close> export symbol is the export assignment, and the arrow function below it
  has a symbol of its own, named \<open>__function\<close>.\<close>

definition exportAssignmentDecl :: Declaration where
  "exportAssignmentDecl = declOf 1 ExportAssignment ''ExportAssignment'' (Some ''default'')"

definition defaultSymbol :: TsSymbol where
  "defaultSymbol =
     \<lparr>symbolGetName = js ''default'', fullyQualifiedName = js ''default'',
      getDeclarations = [exportAssignmentDecl]\<rparr>"

definition defaultArrow :: Node where
  "defaultArrow =
     nodeOf (declOf 2 ArrowFunction ''ArrowFunction'' (Some ''__function'')) (1, 16) (1, 24)
       [nodeOf (declOf 3 (OtherKind 39) ''EqualsGreaterThanToken'' None) (1, 19) (1, 21) [],
        nodeOf (declOf 4 (OtherKind 241) ''Block'' None) (1, 22) (1, 24) []]"

definition defaultArrowFile :: SourceFile where
  "defaultArrowFile =
     (emptyFile (js ''/repo/a.ts''))
       \<lparr>sourceChildren := [nodeOf exportAssignmentDecl (1, 1) (1, 25) [defaultArrow]],
        getStatements := [OtherStatement],
        getExportSymbols := [defaultSymbol],
        getDefaultExportSymbol := Some defaultSymbol\<rparr>"

text \<open>\<^verbatim>\<open>const x = 1;\<close>\<close>

definition xDeclaration :: Node where
  "xDeclaration =
     nodeOf ((declOf 3 VariableDeclaration ''VariableDeclaration'' (Some ''x''))
               \<lparr>nameNodeText := Some (js ''x'')\<rparr>) (1, 7) (1, 12)
       [nodeOf (declOf 4 (OtherKind 80) ''Identifier'' (Some ''x'')) (1, 7) (1, 8) [],
        nodeOf (declOf 5 (OtherKind 9) ''NumericLiteral'' None) (1, 11) (1, 12) []]"

definition constFile :: SourceFile where
  "constFile =
     (emptyFile (js ''/repo/a.ts''))
       \<lparr>sourceChildren :=
          [nodeOf (declOf 1 (OtherKind 243) ''VariableStatement'' None) (1, 1) (1, 13)
             [nodeOf (declOf 2 (OtherKind 261) ''VariableDeclarationList'' None) (1, 1) (1, 12)
                [xDeclaration]]],
        getStatements := [OtherStatement]\<rparr>"

text \<open>\<^verbatim>\<open>export default function () {}\<close>: here the declaration of the \<open>default\<close> export
  symbol is the function declaration itself, which carries the \<open>default\<close> modifier.\<close>

definition defaultFunctionDecl :: Declaration where
  "defaultFunctionDecl =
     (declOf 1 FunctionDeclaration ''FunctionDeclaration'' (Some ''default''))
       \<lparr>modifiers := [ExportKeyword, DefaultKeyword]\<rparr>"

definition defaultFunctionFile :: SourceFile where
  "defaultFunctionFile =
     (emptyFile (js ''/repo/a.ts''))
       \<lparr>sourceChildren :=
          [nodeOf defaultFunctionDecl (1, 1) (1, 30)
             [nodeOf (declOf 2 ExportKeyword ''ExportKeyword'' None) (1, 1) (1, 7) [],
              nodeOf (declOf 3 DefaultKeyword ''DefaultKeyword'' None) (1, 8) (1, 15) [],
              nodeOf (declOf 4 (OtherKind 241) ''Block'' None) (1, 28) (1, 30) []]],
        getStatements := [OtherStatement],
        getExportSymbols :=
          [\<lparr>symbolGetName = js ''default'', fullyQualifiedName = js ''default'',
             getDeclarations = [defaultFunctionDecl]\<rparr>],
        getDefaultExportSymbol :=
          Some \<lparr>symbolGetName = js ''default'', fullyQualifiedName = js ''default'',
                 getDeclarations = [defaultFunctionDecl]\<rparr>\<rparr>"

text \<open>\<^verbatim>\<open>class A { m() {} }\<close>\<close>

definition classFile :: SourceFile where
  "classFile =
     (emptyFile (js ''/repo/a.ts''))
       \<lparr>sourceChildren :=
          [nodeOf ((declOf 1 ClassDeclaration ''ClassDeclaration'' (Some ''A''))
                     \<lparr>getName := Some (js ''A'')\<rparr>) (1, 1) (1, 19)
             [nodeOf (declOf 2 (OtherKind 80) ''Identifier'' (Some ''A'')) (1, 7) (1, 8) [],
              nodeOf ((declOf 3 MethodDeclaration ''MethodDeclaration'' (Some ''m''))
                        \<lparr>nameNodeText := Some (js ''m'')\<rparr>) (1, 11) (1, 17)
                [nodeOf (declOf 4 (OtherKind 80) ''Identifier'' (Some ''m'')) (1, 11) (1, 12) [],
                 nodeOf (declOf 5 (OtherKind 241) ''Block'' None) (1, 15) (1, 17) []]]],
        getStatements := [OtherStatement]\<rparr>"

section \<open>Properties\<close>

subsection \<open>The directive prologue\<close>

lemma useClientLoop_prologue:
  "useClientLoop stmts \<longleftrightarrow> useClientStatement \<in> set (takeWhile isStringLiteralStatement stmts)"
  by (induction stmts) (auto simp: useClientStatement_def split: Statement.splits Expression.splits)

text \<open>
  C4, as stated, fails: in \<^verbatim>\<open>"use strict"; "use client";\<close> the string \<open>use client\<close> is the
  second statement only, and \<open>hasUseClientDirective\<close> is true, because the loop goes on
  through every leading string-literal statement.
\<close>

theorem hasUseClientDirective_second_statement:
  "getStatements strictThenClient ! 0 \<noteq> useClientStatement
   \<and> getStatements strictThenClient ! 1 = useClientStatement
   \<and> length (getStatements strictThenClient) = 2
   \<and> hasUseClientDirective strictThenClient"
  by (simp add: strictThenClient_def emptyFile_def useClientStatement_def
      hasUseClientDirective_def js_def)

text \<open>
  C4, amended: \<open>hasUseClientDirective\<close> is true exactly when \<open>"use client"\<close> is one of the
  leading string-literal expression statements of the file. So it is true for a file whose
  first statement is \<open>"use client"\<close>, and false for a file whose first statement is not a
  string-literal expression statement, also when \<open>"use client"\<close> is its second statement.
\<close>

theorem hasUseClientDirective_prologue:
  "(hasUseClientDirective sf \<longleftrightarrow>
      useClientStatement \<in> set (takeWhile isStringLiteralStatement (getStatements sf)))
   \<and> hasUseClientDirective (sf\<lparr>getStatements := useClientStatement # rest\<rparr>)
   \<and> \<not> hasUseClientDirective (sf\<lparr>getStatements := OtherStatement # useClientStatement # rest\<rparr>)
   \<and> \<not> hasUseClientDirective
         (sf\<lparr>getStatements := ExpressionStatement OtherExpression # useClientStatement # rest\<rparr>)"
  by (simp add: hasUseClientDirective_def useClientLoop_prologue) (simp add: useClientStatement_def)

subsection \<open>Import records\<close>

text \<open>
  C3, as stated, fails: \<open>resolvedKind\<close> is \<open>file\<close> for an import whose specifier resolves
  to \<^verbatim>\<open>/other/x.ts\<close>, a file that does not lie inside the project root \<^verbatim>\<open>/repo\<close>; the
  stored path then leaves the root. The code tests whether the specifier resolves, not
  where the file lies.
\<close>

theorem collectImportRecords_file_outside_root:
  "map moduleSpecifierSourceFile (getImportDeclarations outsideImport) = [Some (js ''/other/x.ts'')]
   \<and> projectRoot outsideHost = js ''/repo''
   \<and> \<not> insideDirectory (js ''/repo'') (js ''/other/x.ts'')
   \<and> map resolvedKind (collectImportRecords outsideHost outsideImport) = [File]
   \<and> map resolved (collectImportRecords outsideHost outsideImport) = [Some (js ''../other/x.ts'')]"
  by (simp add: outsideImport_def outsideHost_def emptyFile_def collectImportRecords_def
      importRecord_def projectRoot_def insideDirectory_def startsWith_def backslashToSlash_def
      js_def)

text \<open>
  C3, amended: \<open>collectImportRecords\<close> emits one record per import declaration, in order,
  with the specifier as \<open>from\<close>. Its \<open>resolvedKind\<close> is \<open>file\<close> exactly when the specifier
  resolves to a source file, wherever that file lies; \<open>resolved\<close> is then the file's path
  relative to the project root (the environment override, else the compiler's \<open>rootDir\<close>,
  else the working directory) with every backslash turned into a slash, and is absent
  otherwise. It is \<open>unknown\<close> exactly when the specifier does not resolve and starts with a
  dot, and \<open>package\<close> exactly when it does not resolve and does not start with a dot.
\<close>

theorem collectImportRecords_classifies:
  "length (collectImportRecords host sf) = length (getImportDeclarations sf)
   \<and> (\<forall>i < length (getImportDeclarations sf).
        importFrom (collectImportRecords host sf ! i) = moduleSpecifierValue (getImportDeclarations sf ! i)
      \<and> (resolvedKind (collectImportRecords host sf ! i) = File
           \<longleftrightarrow> moduleSpecifierSourceFile (getImportDeclarations sf ! i) \<noteq> None)
      \<and> resolved (collectImportRecords host sf ! i)
           = map_option
               (\<lambda>target.
                  map (\<lambda>c. if c = 0x5C then 0x2F else c)
                    (path_relative host
                       (case env_ONTOCODE_EXTRACTOR_REPO host of
                          Some r \<Rightarrow> r
                        | None \<Rightarrow> (case compilerOptions_rootDir host of
                                     Some d \<Rightarrow> d
                                   | None \<Rightarrow> process_cwd host))
                       target))
               (moduleSpecifierSourceFile (getImportDeclarations sf ! i))
      \<and> (resolvedKind (collectImportRecords host sf ! i) = Package
           \<longleftrightarrow> moduleSpecifierSourceFile (getImportDeclarations sf ! i) = None
               \<and> take 1 (moduleSpecifierValue (getImportDeclarations sf ! i)) \<noteq> [0x2E])
      \<and> (resolvedKind (collectImportRecords host sf ! i) = Unknown
           \<longleftrightarrow> moduleSpecifierSourceFile (getImportDeclarations sf ! i) = None
               \<and> take 1 (moduleSpecifierValue (getImportDeclarations sf ! i)) = [0x2E]))"
  by (auto simp: collectImportRecords_def importRecord_def Let_def projectRoot_def
      backslashToSlash_def startsWith_def js_def split: option.splits)

theorem collectImportRecords_classifies_witness:
  "length (getImportDeclarations threeImports) = 3
   \<and> map importFrom (collectImportRecords backslashHost threeImports)
       = [js ''./b'', js ''react'', js ''./missing'']
   \<and> map resolvedKind (collectImportRecords backslashHost threeImports) = [File, Package, Unknown]
   \<and> map resolved (collectImportRecords backslashHost threeImports)
       = [Some (js ''src/b.ts''), None, None]
   \<and> map resolved (collectImportRecords repoHost threeImports) = [Some (js ''src/b.ts''), None, None]"
proof -
  have l: "length (getImportDeclarations threeImports) = 3"
    by (simp add: threeImports_def emptyFile_def)
  have i: "(0::nat) < length (getImportDeclarations threeImports)"
    "(1::nat) < length (getImportDeclarations threeImports)"
    "(2::nat) < length (getImportDeclarations threeImports)"
    by (simp_all add: l)
  note t = collectImportRecords_classifies [of backslashHost threeImports]
  note t0 = t [THEN conjunct2, rule_format, OF i(1)]
  note t1 = t [THEN conjunct2, rule_format, OF i(2)]
  note t2 = t [THEN conjunct2, rule_format, OF i(3)]
  have n: "length (collectImportRecords backslashHost threeImports) = 3"
    using t l by simp
  have d: "getImportDeclarations threeImports ! 0
      = \<lparr>moduleSpecifierValue = js ''./b'', moduleSpecifierSourceFile = Some (js ''/repo/src/b.ts'')\<rparr>"
    "getImportDeclarations threeImports ! 1
      = \<lparr>moduleSpecifierValue = js ''react'', moduleSpecifierSourceFile = None\<rparr>"
    "getImportDeclarations threeImports ! 2
      = \<lparr>moduleSpecifierValue = js ''./missing'', moduleSpecifierSourceFile = None\<rparr>"
    by (simp_all add: threeImports_def emptyFile_def)
  have r0: "importFrom (collectImportRecords backslashHost threeImports ! 0) = js ''./b''"
    "resolvedKind (collectImportRecords backslashHost threeImports ! 0) = File"
    "resolved (collectImportRecords backslashHost threeImports ! 0) = Some (js ''src/b.ts'')"
    using t0 unfolding d by (simp_all add: backslashHost_def js_def)
  have r1: "importFrom (collectImportRecords backslashHost threeImports ! 1) = js ''react''"
    "resolvedKind (collectImportRecords backslashHost threeImports ! 1) = Package"
    "resolved (collectImportRecords backslashHost threeImports ! 1) = None"
    using t1 unfolding d by (simp_all add: js_def)
  have r2: "importFrom (collectImportRecords backslashHost threeImports ! 2) = js ''./missing''"
    "resolvedKind (collectImportRecords backslashHost threeImports ! 2) = Unknown"
    "resolved (collectImportRecords backslashHost threeImports ! 2) = None"
    using t2 unfolding d by (simp_all add: js_def)
  have e: "xs = [xs ! 0, xs ! 1, xs ! 2]" if "length xs = 3" for xs :: "ImportRecord list"
    using that by (auto simp: list_eq_iff_nth_eq less_Suc_eq numeral_3_eq_3 numeral_2_eq_2)
  have c: "collectImportRecords backslashHost threeImports
      = [collectImportRecords backslashHost threeImports ! 0,
         collectImportRecords backslashHost threeImports ! 1,
         collectImportRecords backslashHost threeImports ! 2]"
    using n by (rule e)
  have m: "map importFrom (collectImportRecords backslashHost threeImports)
       = [js ''./b'', js ''react'', js ''./missing'']"
    "map resolvedKind (collectImportRecords backslashHost threeImports) = [File, Package, Unknown]"
    "map resolved (collectImportRecords backslashHost threeImports)
       = [Some (js ''src/b.ts''), None, None]"
    by (subst c, simp only: list.map r0 r1 r2)+
  have "map resolved (collectImportRecords repoHost threeImports) = [Some (js ''src/b.ts''), None, None]"
    by (simp add: threeImports_def emptyFile_def repoHost_def collectImportRecords_def
        importRecord_def startsWith_def js_def projectRoot_def dropRoot_def backslashToSlash_def)
  then show ?thesis
    using l m by (simp only: simp_thms)
qed

subsection \<open>Inheritance lists\<close>

lemma mainLoop_no_inheritance:
  "list_all (\<lambda>r. extends r = [] \<and> implements r = []) (mainLoop host proc repo seen files)"
  by (induction files arbitrary: seen) (auto simp: collectFacts_def Let_def split: option.splits)

text \<open>
  C10: the record \<open>collectFacts\<close> builds has empty \<open>extends\<close> and \<open>implements\<close> lists, and
  so has every record that \<open>main\<close> writes.
\<close>

theorem collectFacts_no_inheritance:
  "extends (collectFacts host sourceFile) = [] \<and> implements (collectFacts host sourceFile) = []
   \<and> list_all (\<lambda>r. extends r = [] \<and> implements r = []) (stdout (main host proc repo))"
  by (simp add: collectFacts_def Let_def main_def mainLoop_no_inheritance split: option.splits)

subsection \<open>The file list\<close>

text \<open>
  C8, as stated, fails: with \<^verbatim>\<open>ONTOCODE_FILE_LIST\<close> set to the empty string, which is
  present in the environment and is not valid JSON, \<^verbatim>\<open>if (envList)\<close> is false; the run
  takes the discovered files, writes their records and ends with exit code 0.
\<close>

theorem main_ignores_empty_file_list:
  "env_ONTOCODE_FILE_LIST emptyListProcess = Some []
   \<and> JSON_parse emptyListProcess [] = None
   \<and> exitCode (main repoHost emptyListProcess (js ''/repo'')) = 0
   \<and> map filePath (stdout (main repoHost emptyListProcess (js ''/repo''))) = [js ''a.ts'']"
  by (simp add: emptyListProcess_def main_def fileList_def truthy_def lookupSource_def
      outputPath_def repoHost_def dropRoot_def startsWith_def backslashToSlash_def js_def)

text \<open>
  C8, amended: when \<^verbatim>\<open>ONTOCODE_FILE_LIST\<close> is set to a non-empty string on which
  \<^verbatim>\<open>JSON.parse\<close> throws, the run ends with exit code 1 and has written no record; when it
  is set to the empty string it is treated as absent, and the run goes through the
  discovered files.
\<close>

theorem main_aborts_on_malformed_file_list:
  "(env_ONTOCODE_FILE_LIST proc = Some envList \<and> envList \<noteq> [] \<and> JSON_parse proc envList = None
      \<longrightarrow> main host proc repo = \<lparr>exitCode = 1, stdout = []\<rparr>)
   \<and> (env_ONTOCODE_FILE_LIST proc = Some []
      \<longrightarrow> main host proc repo
          = \<lparr>exitCode = 0, stdout = mainLoop host proc repo [] (fastGlob proc)\<rparr>)"
  by (simp add: main_def fileList_def parseFileList_def truthy_def)

theorem main_aborts_on_malformed_file_list_witness:
  "env_ONTOCODE_FILE_LIST malformedListProcess = Some (js ''[oops'')
   \<and> js ''[oops'' \<noteq> []
   \<and> JSON_parse malformedListProcess (js ''[oops'') = None
   \<and> main repoHost malformedListProcess (js ''/repo'') = \<lparr>exitCode = 1, stdout = []\<rparr>
   \<and> env_ONTOCODE_FILE_LIST emptyListProcess = Some []
   \<and> main repoHost emptyListProcess (js ''/repo'')
       = \<lparr>exitCode = 0,
          stdout = mainLoop repoHost emptyListProcess (js ''/repo'') [] [js ''/repo/a.ts'']\<rparr>"
proof -
  have a: "env_ONTOCODE_FILE_LIST malformedListProcess = Some (js ''[oops'')"
    "js ''[oops'' \<noteq> []" "JSON_parse malformedListProcess (js ''[oops'') = None"
    by (simp_all add: malformedListProcess_def js_def)
  have b: "env_ONTOCODE_FILE_LIST emptyListProcess = Some []"
    "fastGlob emptyListProcess = [js ''/repo/a.ts'']"
    by (simp_all add: emptyListProcess_def)
  show ?thesis
    using main_aborts_on_malformed_file_list
            [of malformedListProcess "js ''[oops''" repoHost "js ''/repo''"]
          main_aborts_on_malformed_file_list [of emptyListProcess "[]" repoHost "js ''/repo''"]
          a b
    by simp
qed

lemma set_firstOccurrences: "set (firstOccurrences seen xs) = set xs - set seen"
  by (induction xs arbitrary: seen) auto

lemma distinct_firstOccurrences: "distinct (firstOccurrences seen xs)"
  by (induction xs arbitrary: seen) (auto simp: set_firstOccurrences)

lemma mainLoop_paths:
  "map filePath (mainLoop host proc repo seen files)
     = map (outputPath host repo)
         (filter (\<lambda>f. lookupSource proc f \<noteq> None) (firstOccurrences seen files))"
  by (induction files arbitrary: seen) (auto split: option.splits)

text \<open>
  C9: whichever way the file list was obtained, the records written are, in order, those of
  the first occurrences of the listed paths that have a source file: a path met again is
  skipped, no path gives rise to two records, and there are at most as many records as
  distinct paths.
\<close>

theorem main_one_record_per_path:
  "fileList proc repo = Some files \<Longrightarrow>
     map filePath (stdout (main host proc repo))
       = map (outputPath host repo)
           (filter (\<lambda>f. lookupSource proc f \<noteq> None) (firstOccurrences [] files))
     \<and> distinct (firstOccurrences [] files)
     \<and> set (firstOccurrences [] files) = set files
     \<and> length (stdout (main host proc repo)) \<le> card (set files)"
proof -
  assume fl: "fileList proc repo = Some files"
  let ?ps = "filter (\<lambda>f. lookupSource proc f \<noteq> None) (firstOccurrences [] files)"
  have out: "map filePath (stdout (main host proc repo)) = map (outputPath host repo) ?ps"
    using fl by (simp add: main_def mainLoop_paths)
  have d: "distinct ?ps"
    by (simp add: distinct_firstOccurrences)
  have sub: "set ?ps \<subseteq> set files"
    by (auto simp: set_firstOccurrences)
  have "length (stdout (main host proc repo)) = length ?ps"
    using out by (metis length_map)
  also have "\<dots> = card (set ?ps)"
    using d by (rule distinct_card [symmetric])
  also have "\<dots> \<le> card (set files)"
    using sub by (simp add: card_mono)
  finally have len: "length (stdout (main host proc repo)) \<le> card (set files)" .
  show ?thesis
    using out len by (simp add: distinct_firstOccurrences set_firstOccurrences)
qed

theorem main_one_record_per_path_witness:
  "fileList duplicateListProcess (js ''/repo'')
     = Some [js ''/repo/a.ts'', js ''/repo/b.ts'', js ''/repo/a.ts'']
   \<and> map filePath (stdout (main repoHost duplicateListProcess (js ''/repo''))) = [js ''a.ts'', js ''b.ts'']
   \<and> length (stdout (main repoHost duplicateListProcess (js ''/repo''))) = 2"
proof -
  have fl: "fileList duplicateListProcess (js ''/repo'')
     = Some [js ''/repo/a.ts'', js ''/repo/b.ts'', js ''/repo/a.ts'']"
    by (simp add: fileList_def duplicateListProcess_def)
  have l: "lookupSource duplicateListProcess f \<noteq> None" for f
    by (simp add: lookupSource_def duplicateListProcess_def)
  have o: "outputPath repoHost (js ''/repo'') (js ''/repo/a.ts'') = js ''a.ts''"
    "outputPath repoHost (js ''/repo'') (js ''/repo/b.ts'') = js ''b.ts''"
    by (simp_all add: outputPath_def repoHost_def dropRoot_def startsWith_def backslashToSlash_def js_def)
  have f: "firstOccurrences [] [js ''/repo/a.ts'', js ''/repo/b.ts'', js ''/repo/a.ts'']
      = [js ''/repo/a.ts'', js ''/repo/b.ts'']"
    by (simp add: js_def)
  have "map filePath (stdout (main repoHost duplicateListProcess (js ''/repo'')))
       = map (outputPath repoHost (js ''/repo''))
           (filter (\<lambda>f. lookupSource duplicateListProcess f \<noteq> None)
              (firstOccurrences [] [js ''/repo/a.ts'', js ''/repo/b.ts'', js ''/repo/a.ts'']))"
    using main_one_record_per_path [OF fl, of repoHost] by (rule conjunct1)
  then have p: "map filePath (stdout (main repoHost duplicateListProcess (js ''/repo'')))
       = [js ''a.ts'', js ''b.ts'']"
    unfolding f by (simp add: l o)
  then have "length (map filePath (stdout (main repoHost duplicateListProcess (js ''/repo'')))) = 2"
    by (simp add: js_def)
  then have "length (stdout (main repoHost duplicateListProcess (js ''/repo''))) = 2"
    by (simp only: length_map)
  with fl p show ?thesis
    by (simp only: simp_thms)
qed

text \<open>The \<open>filePath\<close> fields written are pairwise distinct as well when distinct listed
  paths have distinct forms relative to the repository.\<close>

lemma main_output_paths_distinct:
  assumes "fileList proc repo = Some files" "inj_on (outputPath host repo) (set files)"
  shows "distinct (map filePath (stdout (main host proc repo)))"
proof -
  let ?ps = "filter (\<lambda>f. lookupSource proc f \<noteq> None) (firstOccurrences [] files)"
  have "map filePath (stdout (main host proc repo)) = map (outputPath host repo) ?ps"
    using assms(1) by (simp add: main_def mainLoop_paths)
  moreover have "distinct ?ps" "set ?ps \<subseteq> set files"
    by (auto simp: distinct_firstOccurrences set_firstOccurrences)
  ultimately show ?thesis
    using assms(2) by (simp add: distinct_map inj_on_subset)
qed

subsection \<open>Evaluating the concrete inputs\<close>

lemmas input_defs = declOf_def nodeOf_def callOf_def emptyFile_def repoHost_def dropRoot_def

lemmas extractor_defs = collectFacts_def collectUnits_def unitStep_def unitOfNode_def
  unitRecord_def isUnitNode_def isFunctionLike_def buildQualifiedName_def inferNodeName_def
  inferUnitKind_def truthy_def moduleQualifiedName_def stripExtension_def backslashToSlash_def
  projectRoot_def startsWith_def forEachDescendant_def collectCallOccurrences_def callStep_def
  callOccurrence_def collectExportRecords_def exportStep_def exportDefaultSymbolId_def
  spanFromNode_def stripQuotesAndSlashes_def Let_def

lemmas token_defs = symbolId_def base64Url_def utf8CodePoint_def isHighSurrogate_def
  isLowSurrogate_def replaceBase64Char_def BASE64_MAP_def base64Char_def base64Alphabet_def

lemma symbolId_arrow_function:
  "symbolId [99, 97, 108, 108, 97, 98, 108, 101] [97, 46, 95, 95, 102, 117, 110, 99, 116, 105, 111, 110]
     = js ''dHM6Y2FsbGFibGU6YS5fX2Z1bmN0aW9u''"
  by (simp add: token_defs js_def)

lemma symbolId_type_default:
  "symbolId [116, 121, 112, 101] [97, 46, 100, 101, 102, 97, 117, 108, 116]
     = js ''dHM6dHlwZTphLmRlZmF1bHQ''"
  by (simp add: token_defs js_def)

lemma symbolId_callable_default:
  "symbolId [99, 97, 108, 108, 97, 98, 108, 101] [97, 46, 100, 101, 102, 97, 117, 108, 116]
     = js ''dHM6Y2FsbGFibGU6YS5kZWZhdWx0''"
  by (simp add: token_defs js_def)

subsection \<open>Units\<close>

lemma foldl_unitStep:
  "foldl (unitStep host sf) acc ns
     = (fst acc @ List.map_filter (unitOfNode host sf) ns,
        snd acc @ concat (map (callsOfNode host sf) ns))"
  by (induction ns arbitrary: acc)
     (auto simp: unitStep_def callsOfNode_def split: option.splits)

lemma collectUnits_eq:
  "collectUnits host sf
     = (List.map_filter (unitOfNode host sf) (forEachDescendant (sourceChildren sf)),
        concat (map (callsOfNode host sf) (forEachDescendant (sourceChildren sf))))"
  by (simp add: collectUnits_def foldl_unitStep)

lemma isUnitNode_unitKinds: "isUnitNode k \<longleftrightarrow> k \<in> unitKinds"
  by (auto simp: isUnitNode_def unitKinds_def)

lemma unitOfNode_Some_iff:
  "unitOfNode host sf n \<noteq> None
     \<longleftrightarrow> getKind (decl (info n)) \<in> unitKinds
         \<and> truthy (buildQualifiedName host (getFilePath sf) (decl (info n)))"
  by (auto simp: unitOfNode_def isUnitNode_unitKinds truthy_def split: option.splits)

lemma unitOfNode_kind:
  assumes "unitOfNode host sf n = Some u"
  shows "kind u = inferUnitKind (decl (info n))"
    and "kind u = Callable \<or> kind u = Classifier"
    and "buildQualifiedName host (getFilePath sf) (decl (info n)) = Some (qualifiedName u)"
    and "symbolId_of u = symbolId (kindText (kind u)) (qualifiedName u)"
    and "span u = spanFromNode (info n)"
  using assms
  by (auto simp: unitOfNode_def unitRecord_def Let_def isUnitNode_def inferUnitKind_def
      split: if_splits option.splits)

text \<open>
  C6, as stated, fails: the declaration of \<open>x\<close> in \<^verbatim>\<open>const x = 1;\<close> is visited, has the
  qualified name \<open>a.x\<close> and would be classified \<open>variable\<close>, and yet the file yields no unit:
  the guard of \<open>collectUnits\<close> lets no variable declaration through.
\<close>

theorem collectUnits_skips_variable:
  "xDeclaration \<in> set (forEachDescendant (sourceChildren constFile))
   \<and> getKind (decl (info xDeclaration)) = VariableDeclaration
   \<and> buildQualifiedName repoHost (getFilePath constFile) (decl (info xDeclaration)) = Some (js ''a.x'')
   \<and> inferUnitKind (decl (info xDeclaration)) = Variable
   \<and> units (collectFacts repoHost constFile) = []"
  by (simp add: input_defs xDeclaration_def constFile_def extractor_defs js_def)

text \<open>
  C6, amended: \<open>collectUnits\<close> emits, in the order of the traversal, one record for every
  descendant node whose kind is a function declaration, function expression, arrow function,
  method, class, interface or enum declaration and whose qualified name can be derived, and
  none for any other node; so a variable declaration yields no record. A record has the kind
  \<open>inferUnitKind\<close> gives its node, which is \<open>callable\<close> or \<open>classifier\<close>, the node's
  qualified name, and the identity token of the two.
\<close>

theorem collectUnits_emits_declaration_units:
  "fst (collectUnits host sf)
     = List.map_filter (unitOfNode host sf) (forEachDescendant (sourceChildren sf))
   \<and> (unitOfNode host sf n \<noteq> None
        \<longleftrightarrow> getKind (decl (info n)) \<in> unitKinds
            \<and> truthy (buildQualifiedName host (getFilePath sf) (decl (info n))))
   \<and> (\<forall>u. unitOfNode host sf n = Some u \<longrightarrow>
          kind u = inferUnitKind (decl (info n))
        \<and> (kind u = Callable \<or> kind u = Classifier)
        \<and> buildQualifiedName host (getFilePath sf) (decl (info n)) = Some (qualifiedName u)
        \<and> symbolId_of u = symbolId (kindText (kind u)) (qualifiedName u)
        \<and> span u = spanFromNode (info n))
   \<and> (getKind (decl (info n)) = VariableDeclaration \<longrightarrow> unitOfNode host sf n = None)"
proof (intro conjI)
  show "fst (collectUnits host sf)
      = List.map_filter (unitOfNode host sf) (forEachDescendant (sourceChildren sf))"
    by (simp add: collectUnits_eq)
  show "unitOfNode host sf n \<noteq> None
      \<longleftrightarrow> getKind (decl (info n)) \<in> unitKinds
          \<and> truthy (buildQualifiedName host (getFilePath sf) (decl (info n)))"
    by (rule unitOfNode_Some_iff)
  show "\<forall>u. unitOfNode host sf n = Some u \<longrightarrow>
          kind u = inferUnitKind (decl (info n))
        \<and> (kind u = Callable \<or> kind u = Classifier)
        \<and> buildQualifiedName host (getFilePath sf) (decl (info n)) = Some (qualifiedName u)
        \<and> symbolId_of u = symbolId (kindText (kind u)) (qualifiedName u)
        \<and> span u = spanFromNode (info n)"
    using unitOfNode_kind [of host sf n] by blast
  show "getKind (decl (info n)) = VariableDeclaration \<longrightarrow> unitOfNode host sf n = None"
    by (simp add: unitOfNode_def isUnitNode_def)
qed

theorem collectUnits_emits_declaration_units_witness:
  "getKind (decl (info xDeclaration)) = VariableDeclaration
   \<and> unitOfNode repoHost constFile xDeclaration = None
   \<and> map kind (fst (collectUnits repoHost classFile)) = [Classifier, Callable]
   \<and> map qualifiedName (fst (collectUnits repoHost classFile)) = [js ''a.A'', js ''a.m'']"
proof -
  have v: "getKind (decl (info xDeclaration)) = VariableDeclaration"
    by (simp add: input_defs xDeclaration_def)
  have n: "unitOfNode repoHost constFile xDeclaration = None"
    using collectUnits_emits_declaration_units [of repoHost constFile xDeclaration] v by blast
  have "fst (collectUnits repoHost classFile)
      = List.map_filter (unitOfNode repoHost classFile) (forEachDescendant (sourceChildren classFile))"
    using collectUnits_emits_declaration_units [of repoHost classFile xDeclaration] by blast
  then have "map kind (fst (collectUnits repoHost classFile)) = [Classifier, Callable]"
    "map qualifiedName (fst (collectUnits repoHost classFile)) = [js ''a.A'', js ''a.m'']"
    by (simp_all add: input_defs classFile_def extractor_defs js_def)
  with v n show ?thesis
    by (simp only: simp_thms)
qed

subsection \<open>Default exports\<close>

text \<open>
  C5 against the code, at \<^verbatim>\<open>export default () => {};\<close>: the file yields one unit, named
  \<open>arrow\<close>, whose \<open>isExportedDefault\<close> is false, because the declaration of the default
  export symbol is the export assignment and not the arrow function; and the export records
  named \<open>default\<close> carry the token of \<open>(type, a.default)\<close>, which is not the unit's token.
\<close>

theorem default_arrow_export_not_linked:
  "map name (units (collectFacts repoHost defaultArrowFile)) = [js ''arrow'']
   \<and> map isExportedDefault (units (collectFacts repoHost defaultArrowFile)) = [False]
   \<and> map symbolId_of (units (collectFacts repoHost defaultArrowFile))
       = [js ''dHM6Y2FsbGFibGU6YS5fX2Z1bmN0aW9u'']
   \<and> map exportName (exports_of (collectFacts repoHost defaultArrowFile))
       = [js ''default'', js ''default'']
   \<and> map unitSymbolId (exports_of (collectFacts repoHost defaultArrowFile))
       = [Some (js ''dHM6dHlwZTphLmRlZmF1bHQ''), Some (js ''dHM6dHlwZTphLmRlZmF1bHQ'')]"
  by (simp add: input_defs exportAssignmentDecl_def defaultSymbol_def defaultArrow_def
      defaultArrowFile_def extractor_defs js_def symbolId_arrow_function symbolId_type_default)

text \<open>The default-exported function declaration, in contrast, is marked and linked: its
  unit has \<open>isExportedDefault\<close> true and the export records carry the unit's token.\<close>

lemma default_function_export_linked:
  "map name (units (collectFacts repoHost defaultFunctionFile)) = [js ''default'']
   \<and> map isExportedDefault (units (collectFacts repoHost defaultFunctionFile)) = [True]
   \<and> map symbolId_of (units (collectFacts repoHost defaultFunctionFile))
       = [js ''dHM6Y2FsbGFibGU6YS5kZWZhdWx0'']
   \<and> map unitSymbolId (exports_of (collectFacts repoHost defaultFunctionFile))
       = [Some (js ''dHM6Y2FsbGFibGU6YS5kZWZhdWx0''), Some (js ''dHM6Y2FsbGFibGU6YS5kZWZhdWx0'')]"
  by (simp add: input_defs defaultFunctionDecl_def defaultFunctionFile_def extractor_defs js_def
      symbolId_callable_default)

subsection \<open>Call occurrences\<close>

lemma foldl_callStep:
  "foldl (callStep host sid) acc ns
     = acc @ map (\<lambda>n. callOccurrence host sid (info n)) (filter isCallNode ns)"
  by (induction ns arbitrary: acc) (simp_all add: callStep_def isCallNode_def)

lemma collectCallOccurrences_map:
  "collectCallOccurrences host container sid
     = map (\<lambda>n. callOccurrence host sid (info n)) (callsIn container)"
  by (simp add: collectCallOccurrences_def foldl_callStep callsIn_def)

lemma stripQuotesAndSlashes_nonempty:
  "stripQuotesAndSlashes t \<noteq> [] \<longleftrightarrow> (\<exists>c \<in> set t. c \<noteq> 0x22 \<and> c \<noteq> 0x27)"
  by (auto simp: stripQuotesAndSlashes_def filter_empty_conv)

text \<open>
  C7, as stated, fails twice in \<^verbatim>\<open>function f() { () => { ""(); }; }\<close>: the file has one
  call expression, whose callee has no declaration, and extraction yields two occurrence
  records for it, one for each of the two callable units it lies in; and the
  \<open>objectQName\<close> of both is empty, since the callee's text is nothing but quotes.
\<close>

theorem nested_quoted_call_occurrences:
  "length (filter isCallNode (forEachDescendant (sourceChildren nestedCallFile))) = 1
   \<and> length (units (collectFacts repoHost nestedCallFile)) = 2
   \<and> map objectSymbolId (occurrences (collectFacts repoHost nestedCallFile)) = [None, None]
   \<and> map objectQName (occurrences (collectFacts repoHost nestedCallFile)) = [[], []]
   \<and> map occurrenceSpan (occurrences (collectFacts repoHost nestedCallFile))
       = [spanFromNode (info quotedCall), spanFromNode (info quotedCall)]"
  by (simp add: input_defs quotedCall_def innerArrow_def outerFunction_def nestedCallFile_def
      extractor_defs js_def isCallNode_def)

text \<open>
  C7, amended: run on a callable unit, \<open>collectCallOccurrences\<close> yields exactly one record
  for every call expression below the unit, in order (over a file, a call is therefore
  recorded once for every emitted function, method or arrow function it lies in). The record
  has the relation \<open>calls\<close>, the unit's token as subject and the call's span; its
  \<open>objectQName\<close> is the callee's name (the checker's fully qualified name when a symbol was
  found, the callee's text otherwise) without quote characters and with every slash turned
  into a dot, which is non-empty exactly when that name has a character other than a quote;
  and its \<open>objectSymbolId\<close> is absent when the callee has no declaration. The function has
  no failing branch.
\<close>

theorem collectCallOccurrences_one_per_call:
  "length (collectCallOccurrences host container sid) = length (callsIn container)
   \<and> (\<forall>i < length (callsIn container).
        relation (collectCallOccurrences host container sid ! i) = Calls
      \<and> subjectSymbolId (collectCallOccurrences host container sid ! i) = sid
      \<and> occurrenceSpan (collectCallOccurrences host container sid ! i)
          = spanFromNode (info (callsIn container ! i))
      \<and> objectQName (collectCallOccurrences host container sid ! i)
          = stripQuotesAndSlashes (calleeName (info (callsIn container ! i)))
      \<and> (objectQName (collectCallOccurrences host container sid ! i) \<noteq> []
           \<longleftrightarrow> (\<exists>c \<in> set (calleeName (info (callsIn container ! i))). c \<noteq> 0x22 \<and> c \<noteq> 0x27))
      \<and> (unresolvedCallee (info (callsIn container ! i))
           \<longrightarrow> objectSymbolId (collectCallOccurrences host container sid ! i) = None))
   \<and> snd (collectUnits host sf)
       = concat (map (callsOfNode host sf) (forEachDescendant (sourceChildren sf)))"
  by (auto simp: collectCallOccurrences_map callOccurrence_def Let_def calleeName_def
      unresolvedCallee_def stripQuotesAndSlashes_nonempty collectUnits_eq
      split: option.splits list.splits)

theorem collectCallOccurrences_one_per_call_witness:
  "(0::nat) < length (callsIn externalCaller)
   \<and> unresolvedCallee (info (callsIn externalCaller ! 0))
   \<and> length (collectCallOccurrences repoHost externalCaller (js ''g'')) = 1
   \<and> relation (collectCallOccurrences repoHost externalCaller (js ''g'') ! 0) = Calls
   \<and> objectSymbolId (collectCallOccurrences repoHost externalCaller (js ''g'') ! 0) = None
   \<and> objectQName (collectCallOccurrences repoHost externalCaller (js ''g'') ! 0) = js ''lib[a.b]''"
proof -
  have c: "callsIn externalCaller
      = [callOf (declOf 5 CallExpression ''CallExpression'' None) (1, 16) (1, 28)
           (''lib['' @ [CHR 0x22] @ ''a/b'' @ [CHR 0x22] @ '']'')
           [nodeOf (declOf 6 (OtherKind 212) ''ElementAccessExpression'' None) (1, 16) (1, 26) []]]"
    by (simp add: callsIn_def isCallNode_def forEachDescendant_def externalCaller_def
        nodeOf_def callOf_def declOf_def)
  have l: "(0::nat) < length (callsIn externalCaller)"
    by (simp add: c)
  have u: "unresolvedCallee (info (callsIn externalCaller ! 0))"
    by (simp add: c unresolvedCallee_def callOf_def)
  have n: "calleeName (info (callsIn externalCaller ! 0))
      = js (''lib['' @ [CHR 0x22] @ ''a/b'' @ [CHR 0x22] @ '']'')"
    by (simp add: c calleeName_def callOf_def)
  note t = collectCallOccurrences_one_per_call
    [of repoHost externalCaller "js ''g''" "emptyFile (js ''/repo/a.ts'')"]
  from t l u have
    "length (collectCallOccurrences repoHost externalCaller (js ''g'')) = 1"
    "relation (collectCallOccurrences repoHost externalCaller (js ''g'') ! 0) = Calls"
    "objectSymbolId (collectCallOccurrences repoHost externalCaller (js ''g'') ! 0) = None"
    "objectQName (collectCallOccurrences repoHost externalCaller (js ''g'') ! 0)
       = stripQuotesAndSlashes (calleeName (info (callsIn externalCaller ! 0)))"
    by (simp_all add: c)
  then show ?thesis
    using l u by (simp add: n) (simp add: stripQuotesAndSlashes_def js_def)
qed

subsection \<open>The identity token and its decoding\<close>

lemma indexOf_nth: "distinct xs \<Longrightarrow> i < length xs \<Longrightarrow> indexOf (xs ! i) xs = Some i"
proof (induction xs arbitrary: i)
  case Nil
  then show ?case by simp
next
  case (Cons x xs)
  then show ?case by (cases i) auto
qed

lemma length_base64Alphabet: "length base64Alphabet = 64"
  by (simp add: base64Alphabet_def js_def)

lemma distinct_base64Alphabet: "distinct base64Alphabet"
  by (simp add: base64Alphabet_def js_def)

lemma base64Index_base64Char: "i < 64 \<Longrightarrow> base64Index (base64Char i) = Some i"
  by (simp add: base64Index_def base64Char_def indexOf_nth distinct_base64Alphabet length_base64Alphabet)

lemma base64Char_in: "i < 64 \<Longrightarrow> base64Char i \<in> set base64Alphabet"
  by (simp add: base64Char_def length_base64Alphabet)

lemma alphabet_not_special:
  "c \<in> set base64Alphabet \<Longrightarrow> c \<noteq> 0x3D \<and> c \<noteq> 0x2D \<and> c \<noteq> 0x5F"
  by (auto simp: base64Alphabet_def js_def)

lemma base64Char_not_special:
  "i < 64 \<Longrightarrow> base64Char i \<noteq> 0x3D \<and> base64Char i \<noteq> 0x2D \<and> base64Char i \<noteq> 0x5F"
  using alphabet_not_special base64Char_in by blast

lemma unat_byte_less: "unat (a :: byte) < 256"
proof -
  have "unat a < 2 ^ LENGTH(8)"
    by (rule unsigned_less)
  then show ?thesis by simp
qed

lemma sextet_bounds:
  fixes a b c :: nat
  assumes "a < 256" "b < 256" "c < 256"
  shows "a div 4 < 64" "a mod 4 * 16 < 64" "a mod 4 * 16 + b div 16 < 64"
    "b mod 16 * 4 < 64" "b mod 16 * 4 + c div 64 < 64" "c mod 64 < 64"
  using assms by simp_all

lemma sextet_join:
  fixes a b c :: nat
  assumes "a < 256" "b < 256" "c < 256"
  shows "a div 4 * 4 + (a mod 4 * 16) div 16 = a"
    "a div 4 * 4 + (a mod 4 * 16 + b div 16) div 16 = a"
    "(a mod 4 * 16 + b div 16) mod 16 * 16 + (b mod 16 * 4) div 4 = b"
    "(a mod 4 * 16 + b div 16) mod 16 * 16 + (b mod 16 * 4 + c div 64) div 4 = b"
    "(b mod 16 * 4 + c div 64) mod 4 * 64 + c mod 64 = c"
  using assms by simp_all

lemma fromBase64_toString_base64: "fromBase64 (toString_base64 bs) = Some bs"
proof (induction bs rule: toString_base64.induct)
  case 1
  show ?case by simp
next
  case (2 a)
  show ?case
    using sextet_bounds [of "unat a" "unat a" "unat a", OF unat_byte_less unat_byte_less unat_byte_less]
      sextet_join [of "unat a" "unat a" "unat a", OF unat_byte_less unat_byte_less unat_byte_less]
    by (simp add: base64Index_base64Char)
next
  case (3 a b)
  show ?case
    using sextet_bounds [of "unat a" "unat b" "unat b", OF unat_byte_less unat_byte_less unat_byte_less]
      sextet_join [of "unat a" "unat b" "unat b", OF unat_byte_less unat_byte_less unat_byte_less]
    by (simp add: base64Index_base64Char base64Char_not_special)
next
  case (4 a b c rest)
  show ?case
    using sextet_bounds [of "unat a" "unat b" "unat c", OF unat_byte_less unat_byte_less unat_byte_less]
      sextet_join [of "unat a" "unat b" "unat c", OF unat_byte_less unat_byte_less unat_byte_less] "4.IH"
    by (simp add: base64Index_base64Char base64Char_not_special)
qed

lemma replaceBase64Char_eq:
  "replaceBase64Char m
     = (if m = 0x3D then [] else [if m = 0x2B then 0x2D else if m = 0x2F then 0x5F else m])"
  by (simp add: replaceBase64Char_def BASE64_MAP_def js_def)

lemma concat_replaceBase64Char:
  "concat (map replaceBase64Char s)
     = map (\<lambda>c. if c = 0x2B then 0x2D else if c = 0x2F then 0x5F else c) (filter (\<lambda>c. c \<noteq> 0x3D) s)"
  by (induction s) (simp_all add: replaceBase64Char_eq)

lemma base64Url_eq: "base64Url v = base64UrlOfBytes (Buffer_from v)"
  by (simp add: base64Url_def base64UrlOfBytes_def concat_replaceBase64Char)

lemma sextet_chars:
  fixes a b c :: byte
  shows "base64Char (unat a div 4) \<noteq> 0x3D \<and> base64Char (unat a div 4) \<noteq> 0x2D
           \<and> base64Char (unat a div 4) \<noteq> 0x5F"
    and "base64Char (unat a mod 4 * 16) \<noteq> 0x3D \<and> base64Char (unat a mod 4 * 16) \<noteq> 0x2D
           \<and> base64Char (unat a mod 4 * 16) \<noteq> 0x5F"
    and "base64Char (unat a mod 4 * 16 + unat b div 16) \<noteq> 0x3D
           \<and> base64Char (unat a mod 4 * 16 + unat b div 16) \<noteq> 0x2D
           \<and> base64Char (unat a mod 4 * 16 + unat b div 16) \<noteq> 0x5F"
    and "base64Char (unat b mod 16 * 4) \<noteq> 0x3D \<and> base64Char (unat b mod 16 * 4) \<noteq> 0x2D
           \<and> base64Char (unat b mod 16 * 4) \<noteq> 0x5F"
    and "base64Char (unat b mod 16 * 4 + unat c div 64) \<noteq> 0x3D
           \<and> base64Char (unat b mod 16 * 4 + unat c div 64) \<noteq> 0x2D
           \<and> base64Char (unat b mod 16 * 4 + unat c div 64) \<noteq> 0x5F"
    and "base64Char (unat c mod 64) \<noteq> 0x3D \<and> base64Char (unat c mod 64) \<noteq> 0x2D
           \<and> base64Char (unat c mod 64) \<noteq> 0x5F"
  using sextet_bounds [of "unat a" "unat b" "unat c", OF unat_byte_less unat_byte_less unat_byte_less]
  by (simp_all add: base64Char_not_special)

lemma toString_base64_chars:
  "c \<in> set (toString_base64 bs) \<Longrightarrow> c = 0x3D \<or> (c \<noteq> 0x2D \<and> c \<noteq> 0x5F)"
  by (induction bs rule: toString_base64.induct) (auto simp: sextet_chars)

lemma reverseCharacterMap_base64UrlOfBytes:
  "reverseCharacterMap (base64UrlOfBytes bs) = filter (\<lambda>c. c \<noteq> 0x3D) (toString_base64 bs)"
proof -
  have "map (\<lambda>c. if c = 0x2D then 0x2B else if c = 0x5F then 0x2F else c)
          (map (\<lambda>c. if c = 0x2B then 0x2D else if c = 0x2F then 0x5F else c) s) = s"
    if "\<forall>c \<in> set s. c \<noteq> 0x2D \<and> c \<noteq> (0x5F :: 16 word)" for s
    using that by (induction s) auto
  moreover have "\<forall>c \<in> set (filter (\<lambda>c. c \<noteq> 0x3D) (toString_base64 bs)). c \<noteq> 0x2D \<and> c \<noteq> 0x5F"
    using toString_base64_chars by auto
  ultimately show ?thesis
    by (simp only: reverseCharacterMap_def base64UrlOfBytes_def)
qed

lemma restorePadding_append4:
  "restorePadding (c0 # c1 # c2 # c3 # s) = c0 # c1 # c2 # c3 # restorePadding s"
  by (simp add: restorePadding_def)

lemma restorePadding_toString_base64:
  "restorePadding (filter (\<lambda>c. c \<noteq> 0x3D) (toString_base64 bs)) = toString_base64 bs"
proof (induction bs rule: toString_base64.induct)
  case (4 a b c rest)
  then show ?case
    by (simp add: restorePadding_append4 sextet_chars)
qed (simp_all add: restorePadding_def sextet_chars numeral_2_eq_2)

lemma decodeToken_base64UrlOfBytes: "decodeToken (base64UrlOfBytes bs) = Some bs"
  by (simp add: decodeToken_def reverseCharacterMap_base64UrlOfBytes restorePadding_toString_base64
      fromBase64_toString_base64)

lemma decodeToken_base64Url: "decodeToken (base64Url x) = Some (Buffer_from x)"
  by (simp add: base64Url_eq decodeToken_base64UrlOfBytes)

lemma base64Url_inj: "base64Url x = base64Url y \<Longrightarrow> Buffer_from x = Buffer_from y"
  by (metis decodeToken_base64Url option.inject)

subsection \<open>Injectivity of the identity token\<close>

lemma unat_byte_of_nat: "m < 256 \<Longrightarrow> unat (of_nat m :: byte) = m"
  by (simp only: unat_of_nat) simp

lemma split64_3: "(n::nat) div 4096 * 4096 + n div 64 mod 64 * 64 + n mod 64 = n"
proof -
  have "n div 4096 = n div 64 div 64"
    by (simp add: div_mult2_eq [symmetric])
  then have "n div 4096 * 64 + n div 64 mod 64 = n div 64"
    by simp
  moreover have "n div 64 * 64 + n mod 64 = n"
    by simp
  ultimately have "(n div 4096 * 64 + n div 64 mod 64) * 64 + n mod 64 = n"
    by simp
  then show ?thesis
    by (simp add: algebra_simps)
qed

lemma split64_4:
  "(n::nat) div 262144 * 262144 + n div 4096 mod 64 * 4096 + n div 64 mod 64 * 64 + n mod 64 = n"
proof -
  have "n div 262144 = n div 4096 div 64"
    by (simp add: div_mult2_eq [symmetric])
  then have "n div 262144 * 64 + n div 4096 mod 64 = n div 4096"
    by simp
  then have "(n div 262144 * 64 + n div 4096 mod 64) * 4096 + n div 64 mod 64 * 64 + n mod 64 = n"
    by (simp only: split64_3)
  then show ?thesis
    by (simp add: algebra_simps)
qed

lemma map_unat_utf8CodePoint:
  assumes "n < 0x110000"
  shows "map unat (utf8CodePoint n) = natBytes n"
proof -
  have b1: "n < 256" if "n < 0x80"
    using that by simp
  have b2: "0xC0 + n div 64 < 256" if "n < 0x800"
    using that by simp
  have b3: "0xE0 + n div 4096 < 256" if "n < 0x10000"
    using that by simp
  have b4: "0xF0 + n div 262144 < 256"
    using assms by simp
  have c: "0x80 + m mod 64 < 256" for m :: nat
    by simp
  show ?thesis
    unfolding utf8CodePoint_def natBytes_def
    by (auto simp only: list.map unat_byte_of_nat b1 b2 b3 b4 c split: if_split)
qed

lemma decodeUnits_bmp:
  assumes "n < 0x10000"
  shows "decodeUnits (natBytes n @ rest) = n # decodeUnits rest"
proof -
  consider "n < 0x80" | "0x80 \<le> n" "n < 0x800" | "0x800 \<le> n" "n < 0x10000"
    using assms by linarith
  then show ?thesis
  proof cases
    case 1
    then show ?thesis by (simp add: natBytes_def)
  next
    case 2
    then have "n div 64 < 32"
      by simp
    with 2 show ?thesis by (simp add: natBytes_def)
  next
    case 3
    then have "n div 4096 < 16"
      by simp
    with 3 show ?thesis by (simp add: natBytes_def split64_3)
  qed
qed

lemma decodeUnits_pair:
  assumes "0x10000 \<le> n" "n < 0x110000"
  shows "decodeUnits (natBytes n @ rest)
     = (0xD800 + (n - 0x10000) div 1024) # (0xDC00 + (n - 0x10000) mod 1024) # decodeUnits rest"
proof -
  have "n div 262144 < 16"
    using assms by simp
  with assms show ?thesis
    by (simp add: natBytes_def split64_4)
qed

lemma isHighSurrogate_unat: "isHighSurrogate u \<longleftrightarrow> 0xD800 \<le> unat u \<and> unat u \<le> 0xDBFF"
  by (simp add: isHighSurrogate_def word_le_nat_alt)

lemma isLowSurrogate_unat: "isLowSurrogate u \<longleftrightarrow> 0xDC00 \<le> unat u \<and> unat u \<le> 0xDFFF"
  by (simp add: isLowSurrogate_def word_le_nat_alt)

lemma unat_unit_less: "unat (u :: 16 word) < 0x10000"
proof -
  have "unat u < 2 ^ LENGTH(16)"
    by (rule unsigned_less)
  then show ?thesis by simp
qed

lemma decodeUnits_unit:
  "decodeUnits (map unat (utf8CodePoint (unat u)) @ rest) = unat u # decodeUnits rest"
  for u :: "16 word"
proof -
  have "unat u < 0x110000"
    using unat_unit_less [of u] by simp
  then show ?thesis
    by (simp only: map_unat_utf8CodePoint decodeUnits_bmp [OF unat_unit_less])
qed

lemma surrogatePair_arith:
  fixes h l :: nat
  assumes "0xD800 \<le> h" "h \<le> 0xDBFF" "0xDC00 \<le> l" "l \<le> 0xDFFF"
  shows "0x10000 \<le> 0x10000 + (h - 0xD800) * 1024 + (l - 0xDC00)"
    and "0x10000 + (h - 0xD800) * 1024 + (l - 0xDC00) < 0x110000"
    and "0xD800 + (0x10000 + (h - 0xD800) * 1024 + (l - 0xDC00) - 0x10000) div 1024 = h"
    and "0xDC00 + (0x10000 + (h - 0xD800) * 1024 + (l - 0xDC00) - 0x10000) mod 1024 = l"
proof -
  define a where "a = h - 0xD800"
  define b where "b = l - 0xDC00"
  have a: "h = 0xD800 + a" "a \<le> 1023"
    using assms(1,2) by (simp_all add: a_def)
  have b: "l = 0xDC00 + b" "b \<le> 1023"
    using assms(3,4) by (simp_all add: b_def)
  show "0x10000 \<le> 0x10000 + (h - 0xD800) * 1024 + (l - 0xDC00)"
    by simp
  show "0x10000 + (h - 0xD800) * 1024 + (l - 0xDC00) < 0x110000"
    using a b by simp
  show "0xD800 + (0x10000 + (h - 0xD800) * 1024 + (l - 0xDC00) - 0x10000) div 1024 = h"
    using a b by simp
  show "0xDC00 + (0x10000 + (h - 0xD800) * 1024 + (l - 0xDC00) - 0x10000) mod 1024 = l"
    using a b by simp
qed

lemma decodeUnits_surrogatePair:
  assumes "isHighSurrogate u" "isLowSurrogate v"
  shows "decodeUnits (map unat (utf8CodePoint (surrogatePair u v)) @ rest)
     = unat u # unat v # decodeUnits rest"
proof -
  have hl: "0xD800 \<le> unat u" "unat u \<le> 0xDBFF" "0xDC00 \<le> unat v" "unat v \<le> 0xDFFF"
    using assms by (simp_all add: isHighSurrogate_unat isLowSurrogate_unat)
  note p = surrogatePair_arith [OF hl, folded surrogatePair_def]
  show ?thesis
    by (simp only: map_unat_utf8CodePoint [OF p(2)] decodeUnits_pair [OF p(1,2)] p(3,4))
qed

lemma decodeUnits_Buffer_from:
  "wellFormed s \<Longrightarrow> decodeUnits (map unat (Buffer_from s)) = map unat s"
proof (induction s rule: Buffer_from.induct)
  case 1
  then show ?case by simp
next
  case (2 u)
  then show ?case
    using decodeUnits_unit [of u "[]"] by simp
next
  case (3 u v rest)
  show ?case
  proof (cases "isHighSurrogate u")
    case True
    with 3 show ?thesis
      using decodeUnits_surrogatePair [of u v "map unat (Buffer_from rest)"] by simp
  next
    case False
    with 3 show ?thesis
      using decodeUnits_unit [of u "map unat (Buffer_from (v # rest))"] by simp
  qed
qed

lemma Buffer_from_inj:
  assumes "wellFormed s" "wellFormed t" "Buffer_from s = Buffer_from t"
  shows "s = t"
proof -
  have "map unat s = decodeUnits (map unat (Buffer_from s))"
    using assms(1) by (rule decodeUnits_Buffer_from [symmetric])
  also have "\<dots> = decodeUnits (map unat (Buffer_from t))"
    by (simp only: assms(3))
  also have "\<dots> = map unat t"
    using assms(2) by (rule decodeUnits_Buffer_from)
  finally have "map (unat :: 16 word \<Rightarrow> nat) s = map unat t" .
  moreover have "inj (unat :: 16 word \<Rightarrow> nat)"
    by (rule injI) (simp only: word_unat_eq_iff [symmetric])
  ultimately show ?thesis
    by (simp only: inj_map_eq_map)
qed

lemma wellFormed_Cons:
  "\<not> isHighSurrogate a \<Longrightarrow> \<not> isLowSurrogate a \<Longrightarrow> wellFormed (a # s) = wellFormed s"
  by (cases s) simp_all

lemma wellFormed_prefix: "wellFormed (js ''ts:'' @ kindText k @ js '':'' @ qn) = wellFormed qn"
  by (cases k) (simp_all add: js_def wellFormed_Cons isHighSurrogate_def isLowSurrogate_def)

lemma prefix_inj:
  "js ''ts:'' @ kindText k1 @ js '':'' @ q1 = js ''ts:'' @ kindText k2 @ js '':'' @ q2
     \<Longrightarrow> k1 = k2 \<and> q1 = q2"
  by (cases k1; cases k2) (simp_all add: js_def)

text \<open>
  C1, as stated, fails: \<^verbatim>\<open>Buffer.from\<close> encodes every unpaired surrogate as U+FFFD, so the
  two distinct qualified names made of the single code unit D800 and of the single code unit
  DC00 get the same token under the same kind.
\<close>

theorem symbolId_lone_surrogates_collide:
  "[0xD800] \<noteq> [0xDC00 :: 16 word]
   \<and> symbolId (kindText Callable) [0xD800] = symbolId (kindText Callable) [0xDC00]"
  by (simp add: token_defs replacementBytes_def js_def)

text \<open>
  C1, amended: \<open>symbolId\<close> is a function of its two arguments alone (it reads nothing
  else), so equal pairs have equal tokens; and for kinds of the closed vocabulary and
  well-formed qualified names (no unpaired surrogate) distinct pairs have distinct tokens.
\<close>

theorem symbolId_injective:
  "wellFormed qn1 \<Longrightarrow> wellFormed qn2 \<Longrightarrow>
     (symbolId (kindText k1) qn1 = symbolId (kindText k2) qn2 \<longleftrightarrow> k1 = k2 \<and> qn1 = qn2)"
proof
  assume w: "wellFormed qn1" "wellFormed qn2"
    and e: "symbolId (kindText k1) qn1 = symbolId (kindText k2) qn2"
  have "Buffer_from (js ''ts:'' @ kindText k1 @ js '':'' @ qn1)
      = Buffer_from (js ''ts:'' @ kindText k2 @ js '':'' @ qn2)"
    using e unfolding symbolId_def by (rule base64Url_inj)
  then have "js ''ts:'' @ kindText k1 @ js '':'' @ qn1 = js ''ts:'' @ kindText k2 @ js '':'' @ qn2"
    using w by (intro Buffer_from_inj) (simp_all only: wellFormed_prefix)
  then show "k1 = k2 \<and> qn1 = qn2"
    by (rule prefix_inj)
next
  assume "k1 = k2 \<and> qn1 = qn2"
  then show "symbolId (kindText k1) qn1 = symbolId (kindText k2) qn2"
    by simp
qed

theorem symbolId_injective_witness:
  "wellFormed (js ''a.foo'') \<and> wellFormed (js ''b.bar'')
   \<and> symbolId (kindText Callable) (js ''a.foo'') \<noteq> symbolId (kindText Callable) (js ''b.bar'')
   \<and> symbolId (kindText Callable) (js ''a.foo'') \<noteq> symbolId (kindText Classifier) (js ''a.foo'')"
proof -
  have w: "wellFormed (js ''a.foo'')" "wellFormed (js ''b.bar'')"
    by (simp_all add: js_def isHighSurrogate_def isLowSurrogate_def)
  have "js ''a.foo'' \<noteq> js ''b.bar''"
    by (simp add: js_def)
  then show ?thesis
    using symbolId_injective [OF w, of Callable Callable]
      symbolId_injective [OF w(1) w(1), of Callable Classifier] w
    by simp
qed

subsection \<open>The identity token as an encoding of the string\<close>











end
